theory Spec2Isabelle
  imports Main "HOL-Library.List_Lexorder" "HOL-Library.AList" "HOL-Library.Multiset"
begin

section \<open>Strings\<close>

text \<open>
  Python strings are modelled as \<^typ>\<open>string\<close>. The string methods the generator uses
  (\<^verbatim>\<open>lower\<close>, \<^verbatim>\<open>lstrip\<close>, \<^verbatim>\<open>rstrip\<close>, \<^verbatim>\<open>strip\<close>, \<^verbatim>\<open>split\<close>, \<^verbatim>\<open>isdigit\<close>,
  \<^verbatim>\<open>endswith\<close>, \<^verbatim>\<open>in\<close>) are given for ASCII text: file names, tags and URLs.
\<close>

definition lower_char :: "char \<Rightarrow> char" where
  "lower_char c =
     (case map_of (zip ''ABCDEFGHIJKLMNOPQRSTUVWXYZ'' ''abcdefghijklmnopqrstuvwxyz'') c of
        Some l \<Rightarrow> l
      | None \<Rightarrow> c)"

definition lower :: "string \<Rightarrow> string" where
  "lower s = map lower_char s"

definition startswith :: "string \<Rightarrow> string \<Rightarrow> bool" where
  "startswith pre s = (take (length pre) s = pre)"

definition endswith :: "string \<Rightarrow> string \<Rightarrow> bool" where
  "endswith suf s = (length suf \<le> length s \<and> drop (length s - length suf) s = suf)"

text \<open>\<^verbatim>\<open>sub in s\<close>: some position of \<open>s\<close> starts with \<open>sub\<close>.\<close>

fun contains :: "string \<Rightarrow> string \<Rightarrow> bool" where
  "contains sub [] = (sub = [])"
| "contains sub (c # cs) = (startswith sub (c # cs) \<or> contains sub cs)"

text \<open>\<^verbatim>\<open>s.split(sep)\<close> for a one-character separator; the result is never empty.\<close>

fun split_on :: "char \<Rightarrow> string \<Rightarrow> string list" where
  "split_on sep [] = [[]]"
| "split_on sep (c # cs) =
     (if c = sep then [] # split_on sep cs
      else (case split_on sep cs of
              [] \<Rightarrow> [[c]]
            | w # ws \<Rightarrow> (c # w) # ws))"

text \<open>\<^verbatim>\<open>s.isdigit()\<close> on ASCII text: a non-empty string of the digits 0 to 9.\<close>

definition isdigit :: "string \<Rightarrow> bool" where
  "isdigit s = (s \<noteq> [] \<and> list_all (\<lambda>c. c \<in> set ''0123456789'') s)"

definition digit_value :: "char \<Rightarrow> int" where
  "digit_value c =
     (case map_of (zip ''0123456789'' [0, 1, 2, 3, 4, 5, 6, 7, 8, 9]) c of
        Some d \<Rightarrow> d
      | None \<Rightarrow> 0)"

text \<open>\<^verbatim>\<open>int(s)\<close> on a string of decimal digits; Python's integers are unbounded.\<close>

definition py_int :: "string \<Rightarrow> int" where
  "py_int s = foldl (\<lambda>acc c. 10 * acc + digit_value c) 0 s"

text \<open>\<^verbatim>\<open>s.lstrip(chars)\<close> and \<^verbatim>\<open>s.rstrip(chars)\<close>.\<close>

definition lstrip :: "char set \<Rightarrow> string \<Rightarrow> string" where
  "lstrip chars s = dropWhile (\<lambda>c. c \<in> chars) s"

definition rstrip :: "char set \<Rightarrow> string \<Rightarrow> string" where
  "rstrip chars s = rev (dropWhile (\<lambda>c. c \<in> chars) (rev s))"

text \<open>
  The ASCII characters for which \<^verbatim>\<open>str.isspace\<close> holds: tab, line feed, vertical tab, form
  feed, carriage return, the four separators \<^verbatim>\<open>\x1c\<close> to \<^verbatim>\<open>\x1f\<close>, and the space.
\<close>

definition whitespace :: "char set" where
  "whitespace = {CHR 0x09, CHR 0x0A, CHR 0x0B, CHR 0x0C, CHR 0x0D,
                 CHR 0x1C, CHR 0x1D, CHR 0x1E, CHR 0x1F, CHR 0x20}"

definition strip :: "string \<Rightarrow> string" where
  "strip s = rstrip whitespace (lstrip whitespace s)"

section \<open>Data model\<close>

record RpmPackage =
  pkg_name :: string
  pkg_version :: string
  pkg_architecture :: string
  pkg_url :: string
  pkg_filename :: string
  pkg_project_repo :: string
  pkg_size :: int
  pkg_sha256 :: string
  pkg_summary :: string
  pkg_description :: string
  pkg_license :: string
  pkg_vendor :: string
  pkg_homepage :: string

record Release =
  rel_tag :: string
  rel_version :: string
  rel_major_minor :: string
  rel_packages :: "RpmPackage list"

text \<open>A project as \<^verbatim>\<open>load_config\<close> builds it: its name is already set (by default the last
  component of the repository identifier).\<close>

record Project =
  proj_repo :: string
  proj_name :: string
  proj_description :: string
  keep_versions :: int
  asset_pattern :: string

record RepoSettings =
  set_name :: string
  baseurl :: string
  architectures :: "string list"
  set_description :: string
  sign_packages :: bool

text \<open>The JSON the hosting provider returns for a release and for each of its assets.\<close>

record asset_data =
  asset_name :: string
  browser_download_url :: string
  asset_size :: int

record release_data =
  tag_name :: string
  prerelease :: bool
  draft :: bool
  assets :: "asset_data list"

text \<open>The dictionary \<^verbatim>\<open>find_rpm_assets\<close> builds for each asset it keeps.\<close>

record rpm_asset =
  ra_name :: string
  ra_url :: string
  ra_size :: int
  ra_architecture :: string

text \<open>
  Exceptions are values. \<open>ApiError\<close> stands for whatever \<^verbatim>\<open>GitHubAPI._request\<close> raises,
  \<open>RegexError\<close> for \<^verbatim>\<open>re.error\<close> on a project's \<^verbatim>\<open>asset_pattern\<close>, \<open>DownloadError\<close> for
  whatever \<^verbatim>\<open>download_file\<close> raises, \<open>IsADirectoryError\<close> for opening or unlinking a
  directory, \<open>FileNotFoundError\<close> for opening a path that does not exist, \<open>KeyError\<close>
  for a missing dictionary key.
\<close>

datatype error =
  ApiError | RegexError | DownloadError | IsADirectoryError | FileNotFoundError | KeyError

text \<open>
  The \<^verbatim>\<open>GitHubAPI\<close> client: its token and the answers of the provider to the two requests
  the generator makes.
\<close>

record GitHubAPI =
  token :: "string option"
  get_releases :: "string \<Rightarrow> error + release_data list"
  get_repo :: "string \<Rightarrow> error + string option"

text \<open>
  \<^verbatim>\<open>re.search(pattern, name, re.IGNORECASE)\<close> for a pattern taken from the configuration:
  the regular-expression engine is a parameter; \<open>None\<close> is a pattern that does not compile.
\<close>

type_synonym regex_engine = "string \<Rightarrow> string \<Rightarrow> bool option"

section \<open>Architecture classifier\<close>

text \<open>
  The patterns of \<^verbatim>\<open>ARCH_PATTERNS\<close> are sequences of literal characters, and one of them
  ends in the class \<^verbatim>\<open>[^_]\<close>: a pattern is a list of atoms, and \<^verbatim>\<open>re.search\<close> looks for a
  position of the text where the whole list matches.
\<close>

datatype atom = Ch char | NotCh char

type_synonym pattern = "atom list"

definition lit :: "string \<Rightarrow> pattern" where
  "lit s = map Ch s"

fun atom_matches :: "atom \<Rightarrow> char \<Rightarrow> bool" where
  "atom_matches (Ch a) c = (c = a)"
| "atom_matches (NotCh a) c = (c \<noteq> a)"

fun match_here :: "pattern \<Rightarrow> string \<Rightarrow> bool" where
  "match_here [] s = True"
| "match_here (a # as) [] = False"
| "match_here (a # as) (c # cs) = (atom_matches a c \<and> match_here as cs)"

fun re_search :: "pattern \<Rightarrow> string \<Rightarrow> bool" where
  "re_search p [] = match_here p []"
| "re_search p (c # cs) = (match_here p (c # cs) \<or> re_search p cs)"

text \<open>The dictionary \<^verbatim>\<open>ARCH_PATTERNS\<close>, in its insertion order.\<close>

definition ARCH_PATTERNS :: "(string \<times> pattern list) list" where
  "ARCH_PATTERNS =
    [(''x86_64'', [lit ''x86_64'', lit ''amd64'', lit ''x64'']),
     (''aarch64'', [lit ''aarch64'', lit ''arm64'']),
     (''i686'', [lit ''i686'', lit ''i386'', lit ''x86'' @ [NotCh CHR ''_'']]),
     (''armv7hl'', [lit ''armv7hl'', lit ''armhf'']),
     (''noarch'', [lit ''noarch''])]"

text \<open>The inner loop of \<^verbatim>\<open>detect_architecture\<close>: does one of the patterns of a tag match?\<close>

fun detect_patterns :: "pattern list \<Rightarrow> string \<Rightarrow> bool" where
  "detect_patterns [] s = False"
| "detect_patterns (p # ps) s = (if re_search p s then True else detect_patterns ps s)"

text \<open>The outer loop: the first tag one of whose patterns matches is returned.\<close>

fun detect_loop :: "(string \<times> pattern list) list \<Rightarrow> string \<Rightarrow> string option" where
  "detect_loop [] s = None"
| "detect_loop ((arch, patterns) # rest) s =
     (if detect_patterns patterns s then Some arch else detect_loop rest s)"

definition detect_architecture :: "string \<Rightarrow> string option" where
  "detect_architecture filename = detect_loop ARCH_PATTERNS (lower filename)"

section \<open>Release selector and asset matcher\<close>

definition extract_version :: "string \<Rightarrow> string" where
  "extract_version tag = lstrip {CHR ''v'', CHR ''V''} tag"

definition extract_major_minor :: "string \<Rightarrow> string" where
  "extract_major_minor version =
     (case split_on CHR ''.'' version of
        p0 # p1 # _ \<Rightarrow> p0 @ ''.'' @ p1
      | _ \<Rightarrow> version)"

text \<open>
  One step of the loop of \<^verbatim>\<open>find_rpm_assets\<close>: \<open>Inr None\<close> is an asset that is skipped,
  \<open>Inr (Some a)\<close> one that is kept.
\<close>

definition rpm_asset_of :: "regex_engine \<Rightarrow> Project \<Rightarrow> string list \<Rightarrow> asset_data
    \<Rightarrow> error + rpm_asset option" where
  "rpm_asset_of re project archs asset =
     (let name = asset_name asset in
      if \<not> endswith ''.rpm'' name then Inr None
      else if contains ''.src.rpm'' name \<or> contains ''.srpm'' name then Inr None
      else
        (case (if asset_pattern project \<noteq> [] then re (asset_pattern project) name
               else Some True) of
           None \<Rightarrow> Inl RegexError
         | Some False \<Rightarrow> Inr None
         | Some True \<Rightarrow>
             (case detect_architecture name of
                None \<Rightarrow> Inr None
              | Some arch \<Rightarrow>
                  if arch \<noteq> [] \<and> arch \<in> set archs
                  then Inr (Some \<lparr>ra_name = name, ra_url = browser_download_url asset,
                                  ra_size = asset_size asset, ra_architecture = arch\<rparr>)
                  else Inr None)))"

fun find_rpm_assets_loop :: "regex_engine \<Rightarrow> Project \<Rightarrow> string list \<Rightarrow> asset_data list
    \<Rightarrow> rpm_asset list \<Rightarrow> error + rpm_asset list" where
  "find_rpm_assets_loop re project archs [] acc = Inr acc"
| "find_rpm_assets_loop re project archs (asset # rest) acc =
     (case rpm_asset_of re project archs asset of
        Inl e \<Rightarrow> Inl e
      | Inr None \<Rightarrow> find_rpm_assets_loop re project archs rest acc
      | Inr (Some a) \<Rightarrow> find_rpm_assets_loop re project archs rest (acc @ [a]))"

definition find_rpm_assets :: "regex_engine \<Rightarrow> release_data \<Rightarrow> Project \<Rightarrow> string list
    \<Rightarrow> error + rpm_asset list" where
  "find_rpm_assets re rd project archs = find_rpm_assets_loop re project archs (assets rd) []"

text \<open>
  The grouping loop of \<^verbatim>\<open>fetch_releases\<close>. The dictionary \<^verbatim>\<open>releases_by_minor\<close> keeps its
  insertion order, which is the order \<^verbatim>\<open>sorted\<close> later starts from: it is an association
  list, extended at the end by a key that is not yet there.
\<close>

fun group_releases :: "release_data list \<Rightarrow> (string \<times> release_data) list
    \<Rightarrow> (string \<times> release_data) list" where
  "group_releases [] acc = acc"
| "group_releases (rd # rest) acc =
     (if prerelease rd \<or> draft rd then group_releases rest acc
      else
        (let major_minor = extract_major_minor (extract_version (tag_name rd)) in
         if map_of acc major_minor = None
         then group_releases rest (acc @ [(major_minor, rd)])
         else group_releases rest acc))"

text \<open>The sort key \<^verbatim>\<open>[int(x) if x.isdigit() else 0 for x in v.split(".")]\<close>.\<close>

definition version_key :: "string \<Rightarrow> int list" where
  "version_key v = map (\<lambda>x. if isdigit x then py_int x else 0) (split_on CHR ''.'' v)"

text \<open>
  \<^verbatim>\<open>sorted(xs, key=key, reverse=True)\<close>: Python compares the keys, lists of integers, in
  the lexicographic order, and the sort is stable also when reversed (elements with equal
  keys keep their original order).
\<close>

definition sorted_reverse :: "('a \<Rightarrow> int list) \<Rightarrow> 'a list \<Rightarrow> 'a list" where
  "sorted_reverse key xs = rev (sort_key key (rev xs))"

text \<open>The \<^verbatim>\<open>RpmPackage\<close> that \<^verbatim>\<open>fetch_releases\<close> builds for an asset; the fields it does not
  set keep their defaults.\<close>

definition make_package :: "Project \<Rightarrow> string \<Rightarrow> string \<Rightarrow> rpm_asset \<Rightarrow> RpmPackage" where
  "make_package project version description asset =
     \<lparr>pkg_name = proj_name project,
      pkg_version = version,
      pkg_architecture = ra_architecture asset,
      pkg_url = ra_url asset,
      pkg_filename = ra_name asset,
      pkg_project_repo = proj_repo project,
      pkg_size = ra_size asset,
      pkg_sha256 = [],
      pkg_summary = description,
      pkg_description = [],
      pkg_license = [],
      pkg_vendor = [],
      pkg_homepage = ''https://github.com/'' @ proj_repo project\<rparr>"

text \<open>The last loop of \<^verbatim>\<open>fetch_releases\<close>, over \<^verbatim>\<open>versions_to_keep\<close>.\<close>

fun build_releases :: "regex_engine \<Rightarrow> Project \<Rightarrow> RepoSettings \<Rightarrow> string
    \<Rightarrow> (string \<times> release_data) list \<Rightarrow> string list \<Rightarrow> Release list
    \<Rightarrow> error + Release list" where
  "build_releases re project settings description by_minor [] releases = Inr releases"
| "build_releases re project settings description by_minor (major_minor # rest) releases =
     (case map_of by_minor major_minor of
        None \<Rightarrow> Inl KeyError
      | Some rd \<Rightarrow>
          (let tag = tag_name rd; version = extract_version tag in
           case find_rpm_assets re rd project (architectures settings) of
             Inl e \<Rightarrow> Inl e
           | Inr rpm_assets \<Rightarrow>
               if rpm_assets \<noteq> []
               then build_releases re project settings description by_minor rest
                      (releases @
                        [\<lparr>rel_tag = tag, rel_version = version, rel_major_minor = major_minor,
                          rel_packages = map (make_package project version description) rpm_assets\<rparr>])
               else build_releases re project settings description by_minor rest releases))"

text \<open>The description: the configured one, else the one of the repository, else a default;
  a failure of the request for the repository is caught.\<close>

definition default_description :: "Project \<Rightarrow> string" where
  "default_description project = proj_name project @ '' from GitHub''"

definition resolve_description :: "GitHubAPI \<Rightarrow> Project \<Rightarrow> string" where
  "resolve_description github project =
     (if proj_description project \<noteq> [] then proj_description project
      else
        (case get_repo github (proj_repo project) of
           Inl e \<Rightarrow> default_description project
         | Inr None \<Rightarrow> default_description project
         | Inr (Some d) \<Rightarrow> if d \<noteq> [] then d else default_description project))"

text \<open>Lines 290 to 294: the prefix of the sorted buckets that is kept.\<close>

definition versions_to_keep :: "Project \<Rightarrow> string list \<Rightarrow> string list" where
  "versions_to_keep project sorted_versions =
     (if keep_versions project > 0 then take (nat (keep_versions project + 1)) sorted_versions
      else take 1 sorted_versions)"

definition fetch_releases :: "regex_engine \<Rightarrow> GitHubAPI \<Rightarrow> Project \<Rightarrow> RepoSettings
    \<Rightarrow> error + Release list" where
  "fetch_releases re github project settings =
     (case get_releases github (proj_repo project) of
        Inl e \<Rightarrow> Inl e
      | Inr releases_data \<Rightarrow>
          (let description = resolve_description github project;
               releases_by_minor = group_releases releases_data [];
               sorted_versions = sorted_reverse version_key (map fst releases_by_minor)
           in build_releases re project settings description releases_by_minor
                (versions_to_keep project sorted_versions) []))"

section \<open>Files and external tools\<close>

text \<open>
  The packages directory is a list of named entries, in the order in which the operating
  system lists them; a regular file carries its contents. A package file is addressed by
  its file name (\<^verbatim>\<open>packages_dir / pkg.filename\<close>: the names of release assets have no
  path separator).
\<close>

datatype entry = File string | Dir

type_synonym directory = "(string \<times> entry) list"

definition path_exists :: "directory \<Rightarrow> string \<Rightarrow> bool" where
  "path_exists d n = (map_of d n \<noteq> None)"

definition is_file :: "directory \<Rightarrow> string \<Rightarrow> bool" where
  "is_file d n = (case map_of d n of Some (File c) \<Rightarrow> True | _ \<Rightarrow> False)"

text \<open>What the server does with a download request.\<close>

datatype download_result = Downloaded string | ConnectFailed | Interrupted string

text \<open>
  Everything outside the process: the server that holds the assets, the digest function,
  the \<^verbatim>\<open>rpm\<close> binary (\<^verbatim>\<open>--addsign\<close> gives the signed file or fails, the query gives its
  standard output or fails) and the regular-expression engine.
\<close>

record env =
  fetch_url :: "string \<Rightarrow> string option \<Rightarrow> download_result"
  sha256 :: "string \<Rightarrow> string"
  rpm_addsign :: "string \<Rightarrow> string \<Rightarrow> string option"
  rpm_qip :: "string \<Rightarrow> string option"
  re_search_ignorecase :: regex_engine

text \<open>Python's truth value of an optional string: \<^verbatim>\<open>None\<close> and \<^verbatim>\<open>""\<close> are false.\<close>

definition truthy :: "string option \<Rightarrow> bool" where
  "truthy s = (case s of None \<Rightarrow> False | Some x \<Rightarrow> x \<noteq> [])"

text \<open>
  \<^verbatim>\<open>download_file\<close>: the request is made first; then the destination is opened for writing
  and the response copied to it. A transfer that breaks off leaves what it has written.
\<close>

definition download_file :: "env \<Rightarrow> string \<Rightarrow> string \<Rightarrow> string option \<Rightarrow> directory
    \<Rightarrow> directory \<times> error option" where
  "download_file ev url dest tok d =
     (case fetch_url ev url tok of
        ConnectFailed \<Rightarrow> (d, Some DownloadError)
      | Interrupted c \<Rightarrow>
          if map_of d dest = Some Dir then (d, Some IsADirectoryError)
          else (AList.update dest (File c) d, Some DownloadError)
      | Downloaded c \<Rightarrow>
          if map_of d dest = Some Dir then (d, Some IsADirectoryError)
          else (AList.update dest (File c) d, None))"

definition compute_sha256 :: "env \<Rightarrow> directory \<Rightarrow> string \<Rightarrow> error + string" where
  "compute_sha256 ev d filepath =
     (case map_of d filepath of
        None \<Rightarrow> Inl FileNotFoundError
      | Some Dir \<Rightarrow> Inl IsADirectoryError
      | Some (File c) \<Rightarrow> Inr (sha256 ev c))"

text \<open>\<^verbatim>\<open>rpm_path.stat().st_size\<close> of a file that has just been read.\<close>

definition st_size :: "directory \<Rightarrow> string \<Rightarrow> int" where
  "st_size d filepath = (case map_of d filepath of Some (File c) \<Rightarrow> int (length c) | _ \<Rightarrow> 0)"

text \<open>
  \<^verbatim>\<open>sign_rpm_package\<close> returns whether \<^verbatim>\<open>rpm --addsign\<close> succeeded; the errors of the
  subprocess are caught inside and give \<^verbatim>\<open>False\<close>. Signing rewrites the file.
\<close>

definition sign_rpm_package :: "env \<Rightarrow> string \<Rightarrow> string option \<Rightarrow> directory
    \<Rightarrow> directory \<times> bool" where
  "sign_rpm_package ev rpm_path key d =
     (case map_of d rpm_path of
        Some (File c) \<Rightarrow>
          (case rpm_addsign ev (case key of None \<Rightarrow> [] | Some k \<Rightarrow> k) c of
             Some c' \<Rightarrow> (AList.update rpm_path (File c') d, True)
           | None \<Rightarrow> (d, False))
      | _ \<Rightarrow> (d, False))"

definition none_to_empty :: "string \<Rightarrow> string" where
  "none_to_empty s = (if s \<noteq> ''(none)'' then s else [])"

fun join :: "string \<Rightarrow> string list \<Rightarrow> string" where
  "join sep [] = []"
| "join sep [x] = x"
| "join sep (x # y # ys) = x @ sep @ join sep (y # ys)"

text \<open>\<^verbatim>\<open>extract_rpm_info\<close>: the dictionary is empty unless the query printed seven lines.\<close>

definition extract_rpm_info :: "env \<Rightarrow> directory \<Rightarrow> string \<Rightarrow> (string \<times> string) list" where
  "extract_rpm_info ev d rpm_path =
     (case map_of d rpm_path of
        Some (File c) \<Rightarrow>
          (case rpm_qip ev c of
             None \<Rightarrow> []
           | Some stdout \<Rightarrow>
               (let lines = split_on CHR 0x0A stdout in
                if length lines \<ge> 7
                then [(''name'', none_to_empty (lines ! 0)),
                      (''version'', none_to_empty (lines ! 1)),
                      (''release'', none_to_empty (lines ! 2)),
                      (''summary'', none_to_empty (lines ! 3)),
                      (''license'', none_to_empty (lines ! 4)),
                      (''vendor'', none_to_empty (lines ! 5)),
                      (''url'', none_to_empty (lines ! 6)),
                      (''description'',
                         if length lines > 7 then join [CHR 0x0A] (drop 7 lines) else [])]
                else []))
      | _ \<Rightarrow> [])"

text \<open>\<^verbatim>\<open>info.get(key, default)\<close>.\<close>

definition dict_get :: "(string \<times> string) list \<Rightarrow> string \<Rightarrow> string \<Rightarrow> string" where
  "dict_get info k dflt = (case map_of info k of Some v \<Rightarrow> v | None \<Rightarrow> dflt)"

section \<open>Repository descriptor\<close>

definition generate_repo_file :: "RepoSettings \<Rightarrow> string option \<Rightarrow> bool \<Rightarrow> string" where
  "generate_repo_file settings gpg_key sign_pkgs =
     (let packages_url = rstrip {CHR ''/''} (baseurl settings) @ ''/packages'';
          gpg_lines =
            (if truthy gpg_key then
               (if sign_pkgs
                then ''gpgcheck=1\<newline>repo_gpgcheck=1\<newline>gpgkey='' @ baseurl settings
                       @ ''/RPM-GPG-KEY-'' @ set_name settings
                else ''gpgcheck=0\<newline>repo_gpgcheck=1\<newline>gpgkey='' @ baseurl settings
                       @ ''/RPM-GPG-KEY-'' @ set_name settings)
             else ''gpgcheck=0'');
          content = ''['' @ set_name settings @ '']\<newline>name='' @ set_description settings
                      @ ''\<newline>baseurl='' @ packages_url @ ''\<newline>enabled=1\<newline>''
                      @ gpg_lines @ ''\<newline>''
      in strip content @ ''\<newline>'')"

section \<open>Manifest reconciliation and the run\<close>

text \<open>
  \<^verbatim>\<open>packages_dir.glob("*.rpm")\<close>: the entries whose name ends in \<^verbatim>\<open>.rpm\<close>, whatever their
  kind, listed before the loop starts.
\<close>

definition glob_rpm :: "directory \<Rightarrow> (string \<times> entry) list" where
  "glob_rpm d = filter (\<lambda>(n, e). endswith ''.rpm'' n) d"

text \<open>
  The loop of \<^verbatim>\<open>cleanup_old_packages\<close>. \<^verbatim>\<open>unlink\<close> removes a regular file and raises on
  a directory; the exception is not caught, so the loop stops there.
\<close>

fun cleanup_loop :: "string set \<Rightarrow> (string \<times> entry) list \<Rightarrow> directory \<Rightarrow> string list
    \<Rightarrow> directory \<times> (error + string list)" where
  "cleanup_loop current_filenames [] d removed = (d, Inr removed)"
| "cleanup_loop current_filenames ((n, e) # rest) d removed =
     (if n \<notin> current_filenames then
        (case e of
           Dir \<Rightarrow> (d, Inl IsADirectoryError)
         | File c \<Rightarrow> cleanup_loop current_filenames rest (AList.delete n d) (removed @ [n]))
      else cleanup_loop current_filenames rest d removed)"

definition cleanup_old_packages :: "directory option \<Rightarrow> RpmPackage list
    \<Rightarrow> directory option \<times> (error + string list)" where
  "cleanup_old_packages packages_dir all_packages =
     (let current_filenames = set (map pkg_filename all_packages) in
      case packages_dir of
        None \<Rightarrow> (None, Inr [])
      | Some d \<Rightarrow>
          (case cleanup_loop current_filenames (glob_rpm d) d [] of
             (d', r) \<Rightarrow> (Some d', r)))"

text \<open>The command line, as parsed.\<close>

record args =
  arg_project :: "string option"
  list_mode :: bool
  dry_run :: bool
  gpg_key :: "string option"
  no_sign :: bool

text \<open>
  The body of the innermost loop of \<^verbatim>\<open>main\<close>, for one package. The state is the packages
  directory and the list \<^verbatim>\<open>new_packages\<close>; an exception leaves the loop with the state it
  has reached.
\<close>

definition process_package :: "env \<Rightarrow> GitHubAPI \<Rightarrow> RepoSettings \<Rightarrow> args \<Rightarrow> RpmPackage
    \<Rightarrow> directory \<times> RpmPackage list \<Rightarrow> (directory \<times> RpmPackage list) \<times> error option" where
  "process_package ev github settings ar pkg st =
     (case st of (d, new_packages) \<Rightarrow>
      if dry_run ar then ((d, new_packages), None)
      else
        (let rpm_path = pkg_filename pkg;
             (d1, failure, needs_signing) =
               (if \<not> path_exists d rpm_path
                then (case download_file ev (pkg_url pkg) rpm_path (token github) d of
                        (d', failure) \<Rightarrow> (d', failure, True))
                else (d, None, False))
         in case failure of
              Some e \<Rightarrow> ((d1, new_packages), Some e)
            | None \<Rightarrow>
                (let d2 = (if sign_packages settings \<and> truthy (gpg_key ar) \<and> needs_signing
                           then fst (sign_rpm_package ev rpm_path (gpg_key ar) d1)
                           else d1)
                 in case compute_sha256 ev d2 rpm_path of
                      Inl e \<Rightarrow> ((d2, new_packages), Some e)
                    | Inr digest \<Rightarrow>
                        (let pkg1 = pkg\<lparr>pkg_sha256 := digest, pkg_size := st_size d2 rpm_path\<rparr>;
                             info = extract_rpm_info ev d2 rpm_path;
                             pkg2 =
                               (if info \<noteq> [] then
                                  pkg1\<lparr>pkg_name := dict_get info ''name'' (pkg_name pkg1),
                                       pkg_summary := dict_get info ''summary'' (pkg_summary pkg1),
                                       pkg_description :=
                                         dict_get info ''description'' (pkg_description pkg1),
                                       pkg_license := dict_get info ''license'' (pkg_license pkg1),
                                       pkg_vendor := dict_get info ''vendor'' (pkg_vendor pkg1),
                                       pkg_homepage := dict_get info ''url'' (pkg_homepage pkg1)\<rparr>
                                else pkg1)
                         in ((d2, new_packages @ [pkg2]), None)))))"

fun process_packages :: "env \<Rightarrow> GitHubAPI \<Rightarrow> RepoSettings \<Rightarrow> args \<Rightarrow> RpmPackage list
    \<Rightarrow> directory \<times> RpmPackage list \<Rightarrow> (directory \<times> RpmPackage list) \<times> error option" where
  "process_packages ev github settings ar [] st = (st, None)"
| "process_packages ev github settings ar (pkg # rest) st =
     (case process_package ev github settings ar pkg st of
        (st', Some e) \<Rightarrow> (st', Some e)
      | (st', None) \<Rightarrow> process_packages ev github settings ar rest st')"

fun process_releases :: "env \<Rightarrow> GitHubAPI \<Rightarrow> RepoSettings \<Rightarrow> args \<Rightarrow> Release list
    \<Rightarrow> directory \<times> RpmPackage list \<Rightarrow> (directory \<times> RpmPackage list) \<times> error option" where
  "process_releases ev github settings ar [] st = (st, None)"
| "process_releases ev github settings ar (release # rest) st =
     (case process_packages ev github settings ar (rel_packages release) st of
        (st', Some e) \<Rightarrow> (st', Some e)
      | (st', None) \<Rightarrow> process_releases ev github settings ar rest st')"

text \<open>
  The body of the loop over the projects: the \<^verbatim>\<open>try\<close> block spans the fetch and both inner
  loops, and \<^verbatim>\<open>except Exception\<close> goes on to the next project.
\<close>

definition process_project :: "env \<Rightarrow> GitHubAPI \<Rightarrow> RepoSettings \<Rightarrow> args \<Rightarrow> Project
    \<Rightarrow> directory \<times> RpmPackage list \<Rightarrow> directory \<times> RpmPackage list" where
  "process_project ev github settings ar project st =
     (case fetch_releases (re_search_ignorecase ev) github project settings of
        Inl e \<Rightarrow> st
      | Inr releases \<Rightarrow>
          if releases = [] then st
          else fst (process_releases ev github settings ar releases st))"

fun process_projects :: "env \<Rightarrow> GitHubAPI \<Rightarrow> RepoSettings \<Rightarrow> args \<Rightarrow> Project list
    \<Rightarrow> directory \<times> RpmPackage list \<Rightarrow> directory \<times> RpmPackage list" where
  "process_projects ev github settings ar [] st = st"
| "process_projects ev github settings ar (project # rest) st =
     process_projects ev github settings ar rest
       (process_project ev github settings ar project st)"

text \<open>
  The output directory: the packages directory (if it exists), the manifest (if it exists;
  its time stamp is left out) and the descriptor file.
\<close>

record world =
  packages_dir :: "directory option"
  manifest :: "RpmPackage list option"
  repo_file :: "string option"

definition load_manifest :: "world \<Rightarrow> RpmPackage list" where
  "load_manifest w = (case manifest w of None \<Rightarrow> [] | Some pkgs \<Rightarrow> pkgs)"

definition save_manifest :: "world \<Rightarrow> RpmPackage list \<Rightarrow> world" where
  "save_manifest w pkgs = w\<lparr>manifest := Some pkgs\<rparr>"

text \<open>Lines 616 to 619 of \<^verbatim>\<open>main\<close>: the records of the projects that are not updated.\<close>

definition preserved_packages :: "RpmPackage list \<Rightarrow> string set \<Rightarrow> RpmPackage list" where
  "preserved_packages existing_packages projects_to_update =
     filter (\<lambda>pkg. pkg_project_repo pkg \<notin> projects_to_update) existing_packages"

text \<open>
  The reconciliation inside \<^verbatim>\<open>main\<close> (lines 614 to 619 and 692 to 696): from the existing
  packages, the updated projects and the new packages to the final list, the directory as
  the cleanup leaves it, and the removed files.
\<close>

definition reconcile :: "directory option \<Rightarrow> RpmPackage list \<Rightarrow> string set \<Rightarrow> RpmPackage list
    \<Rightarrow> RpmPackage list \<times> directory option \<times> (error + string list)" where
  "reconcile pdir existing_packages projects_to_update new_packages =
     (let all_packages = preserved_packages existing_packages projects_to_update @ new_packages
      in (all_packages, cleanup_old_packages pdir all_packages))"

datatype outcome = Exit int | Crashed error

definition projects_to_process :: "Project list \<Rightarrow> args \<Rightarrow> Project list" where
  "projects_to_process all_projects ar =
     (case arg_project ar of
        None \<Rightarrow> all_projects
      | Some n \<Rightarrow>
          if n \<noteq> [] then filter (\<lambda>p. proj_name p = n \<or> proj_repo p = n) all_projects
          else all_projects)"

text \<open>
  \<^verbatim>\<open>main\<close>, from the loaded configuration to the written manifest and descriptor. The
  indexer and the signer are external processes that run after the manifest is saved; they
  write the \<^verbatim>\<open>repodata\<close> directory and the key file, and are not part of the state.
\<close>

definition main :: "env \<Rightarrow> GitHubAPI \<Rightarrow> RepoSettings \<Rightarrow> Project list \<Rightarrow> args \<Rightarrow> world
    \<Rightarrow> world \<times> outcome" where
  "main ev github settings all_projects ar w =
     (if list_mode ar then (w, Exit 0)
      else
        (let to_process = projects_to_process all_projects ar in
         if truthy (arg_project ar) \<and> to_process = [] then (w, Exit 1)
         else
           (let existing_packages = load_manifest w;
                projects_to_update = set (map proj_repo to_process);
                d0 = (case packages_dir w of None \<Rightarrow> [] | Some d \<Rightarrow> d);
                (d1, new_packages) = process_projects ev github settings ar to_process (d0, [])
            in if dry_run ar then (w, Exit 0)
               else
                 (case reconcile (Some d1) existing_packages projects_to_update new_packages of
                    (all_packages, pdir, Inl e) \<Rightarrow> (w\<lparr>packages_dir := pdir\<rparr>, Crashed e)
                  | (all_packages, pdir, Inr removed) \<Rightarrow>
                      ((save_manifest (w\<lparr>packages_dir := pdir\<rparr>) all_packages)
                        \<lparr>repo_file :=
                           Some (generate_repo_file settings
                                   (if \<not> no_sign ar then gpg_key ar else None)
                                   (sign_packages settings))\<rparr>,
                       Exit 0)))))"

section \<open>Example data\<close>

text \<open>A project with five release lines, each release carrying one package for x86_64.\<close>

definition ex_asset :: "string \<Rightarrow> asset_data" where
  "ex_asset n = \<lparr>asset_name = n, browser_download_url = ''https://example.org/dl/'' @ n,
                 asset_size = 100\<rparr>"

definition ex_release :: "string \<Rightarrow> string list \<Rightarrow> release_data" where
  "ex_release tag names =
     \<lparr>tag_name = tag, prerelease = False, draft = False, assets = map ex_asset names\<rparr>"

definition ex_releases5 :: "release_data list" where
  "ex_releases5 =
     [ex_release ''v2.0.1'' [''app-2.0.1.x86_64.rpm''],
      ex_release ''v1.10.0'' [''app-1.10.0.x86_64.rpm''],
      ex_release ''v1.9.3'' [''app-1.9.3.x86_64.rpm''],
      ex_release ''v1.8.0'' [''app-1.8.0.x86_64.rpm''],
      ex_release ''v1.7.2'' [''app-1.7.2.x86_64.rpm'']]"

definition ex_github :: "release_data list \<Rightarrow> GitHubAPI" where
  "ex_github rds = \<lparr>token = None, get_releases = (\<lambda>repo. Inr rds), get_repo = (\<lambda>repo. Inr None)\<rparr>"

definition ex_project :: "string \<Rightarrow> int \<Rightarrow> Project" where
  "ex_project repo n =
     \<lparr>proj_repo = repo, proj_name = ''app'', proj_description = ''An application'',
      keep_versions = n, asset_pattern = []\<rparr>"

definition ex_settings :: RepoSettings where
  "ex_settings =
     \<lparr>set_name = ''github-packages'', baseurl = ''https://example.org/rpm'',
      architectures = [''x86_64'', ''aarch64''], set_description = ''GitHub Packages'',
      sign_packages = True\<rparr>"

definition ex_regex :: regex_engine where
  "ex_regex pat s = Some True"

text \<open>A packages directory, a manifest that matches it, and an environment in which the
  downloads from the listed addresses fail, signing fails and the package query fails.\<close>

definition ex_env :: "string list \<Rightarrow> env" where
  "ex_env unreachable =
     \<lparr>fetch_url = (\<lambda>url tok. if url \<in> set unreachable then ConnectFailed
                               else Downloaded (''rpm from '' @ url)),
      sha256 = (\<lambda>c. ''digest of '' @ c),
      rpm_addsign = (\<lambda>key c. None),
      rpm_qip = (\<lambda>c. None),
      re_search_ignorecase = ex_regex\<rparr>"

definition ex_package :: "string \<Rightarrow> string \<Rightarrow> RpmPackage" where
  "ex_package repo fname =
     \<lparr>pkg_name = ''app'', pkg_version = ''1.0'', pkg_architecture = ''x86_64'',
      pkg_url = ''https://example.org/dl/'' @ fname, pkg_filename = fname,
      pkg_project_repo = repo, pkg_size = 0, pkg_sha256 = [], pkg_summary = [],
      pkg_description = [], pkg_license = [], pkg_vendor = [], pkg_homepage = []\<rparr>"

definition ex_args :: args where
  "ex_args = \<lparr>arg_project = None, list_mode = False, dry_run = False,
              gpg_key = Some ''0xKEY'', no_sign = False\<rparr>"

definition ex_dir :: directory where
  "ex_dir = [(''lib-1.0.noarch.rpm'', File ''lib''),
             (''app-1.9.3.x86_64.rpm'', File ''old app''),
             (''repodata'', Dir)]"

definition ex_manifest :: "RpmPackage list" where
  "ex_manifest = [ex_package ''acme/lib'' ''lib-1.0.noarch.rpm'',
                  ex_package ''acme/app'' ''app-1.9.3.x86_64.rpm'']"

definition ex_world :: world where
  "ex_world = \<lparr>packages_dir = Some ex_dir, manifest = Some ex_manifest, repo_file = None\<rparr>"

text \<open>The run that updates the project \<^verbatim>\<open>acme/app\<close> in that directory.\<close>

definition ex_run :: "world \<times> outcome" where
  "ex_run = main (ex_env []) (ex_github ex_releases5) ex_settings
              [ex_project ''acme/app'' 0] ex_args ex_world"

text \<open>
  Further data: a release with packages for two architectures, two release lines whose
  asset has the same name, a manifest in which two projects name the same file, settings
  whose base URL ends in a slash, and the address at which downloads fail.
\<close>

definition ex_two_assets :: "release_data list" where
  "ex_two_assets = [ex_release ''v1.0.0'' [''tool-1.0.x86_64.rpm'', ''tool-1.0.aarch64.rpm'']]"

definition ex_same_name :: "release_data list" where
  "ex_same_name = [ex_release ''v1.1.0'' [''tool.x86_64.rpm''],
                   ex_release ''v1.0.0'' [''tool.x86_64.rpm'']]"

definition ex_one_tool :: "release_data list" where
  "ex_one_tool = [ex_release ''v1.0.0'' [''tool.x86_64.rpm'']]"

definition ex_empty_world :: world where
  "ex_empty_world = \<lparr>packages_dir = None, manifest = None, repo_file = None\<rparr>"

definition ex_unreachable :: "string list" where
  "ex_unreachable = [''https://example.org/dl/tool-1.0.x86_64.rpm'']"

definition ex_rels :: "Release list" where
  "ex_rels = (case fetch_releases ex_regex (ex_github ex_two_assets)
                     (ex_project ''acme/tool'' 0) ex_settings of
                Inr rs \<Rightarrow> rs | Inl e \<Rightarrow> [])"

definition ex_pkgs :: "RpmPackage list" where
  "ex_pkgs = concat (map rel_packages ex_rels)"

definition ex_shared :: "RpmPackage list" where
  "ex_shared = [ex_package ''acme/a'' ''tool.x86_64.rpm'', ex_package ''acme/b'' ''tool.x86_64.rpm'']"

text \<open>The output directory after a first run over two projects that publish an asset of
  the same name.\<close>

definition ex_shared_world :: world where
  "ex_shared_world =
     fst (main (ex_env []) (ex_github ex_one_tool) ex_settings
            [ex_project ''acme/a'' 0, ex_project ''acme/b'' 0] ex_args ex_empty_world)"


section \<open>Auxiliary notions\<close>

text \<open>The names that the cleanup loop removes when it runs over the listing \<open>es\<close>.\<close>

definition doomed :: "string set \<Rightarrow> (string \<times> entry) list \<Rightarrow> string set" where
  "doomed cur es = {n. \<exists>e. (n, e) \<in> set es \<and> n \<notin> cur}"

text \<open>
  The invariant of the loops of \<^verbatim>\<open>main\<close>: the files named in \<open>F\<close> are there, every
  recorded package has its file and a name in \<open>A\<close>, and only names in \<open>D\<close> are directories.
\<close>

definition sound :: "string set \<Rightarrow> string set \<Rightarrow> string set \<Rightarrow> directory \<times> RpmPackage list
    \<Rightarrow> bool" where
  "sound F A D st =
     ((\<forall>n\<in>F. is_file (fst st) n)
      \<and> (\<forall>p\<in>set (snd st). is_file (fst st) (pkg_filename p) \<and> pkg_filename p \<in> A)
      \<and> (\<forall>n. (n, Dir) \<in> set (fst st) \<longrightarrow> n \<in> D))"

section \<open>Properties of the architecture classifier\<close>

lemma detect_patterns_list_ex: "detect_patterns ps s = list_ex (\<lambda>p. re_search p s) ps"
  by (induction ps) auto

lemma detect_loop_find:
  "detect_loop aps s = map_option fst (find (\<lambda>ap. list_ex (\<lambda>p. re_search p s) (snd ap)) aps)"
  by (induction aps s rule: detect_loop.induct) (auto simp: detect_patterns_list_ex)

text \<open>
  Claim C7. The classifier is a function of the file name alone. The tags are tried in the
  order x86_64, aarch64, i686, armv7hl, noarch, and the result is the first tag one of whose
  patterns is found in the lower-cased name, or nothing when no pattern is found. On the
  four names of the specification it gives x86_64, i686, noarch and nothing.
\<close>

theorem detect_architecture_first_match:
  "map fst ARCH_PATTERNS = [''x86_64'', ''aarch64'', ''i686'', ''armv7hl'', ''noarch'']
   \<and> detect_architecture filename =
       map_option fst
         (find (\<lambda>ap. list_ex (\<lambda>p. re_search p (lower filename)) (snd ap)) ARCH_PATTERNS)
   \<and> detect_architecture ''app-1.0-x86_64.rpm'' = Some ''x86_64''
   \<and> detect_architecture ''app-1.0.i686.rpm'' = Some ''i686''
   \<and> detect_architecture ''app-1.0.noarch.rpm'' = Some ''noarch''
   \<and> detect_architecture ''app-1.0.deb'' = None"
proof -
  have order: "map fst ARCH_PATTERNS = [''x86_64'', ''aarch64'', ''i686'', ''armv7hl'', ''noarch'']"
    by (simp add: ARCH_PATTERNS_def)
  have first: "detect_architecture filename =
       map_option fst
         (find (\<lambda>ap. list_ex (\<lambda>p. re_search p (lower filename)) (snd ap)) ARCH_PATTERNS)"
    by (simp only: detect_architecture_def detect_loop_find)
  have e1: "detect_architecture ''app-1.0-x86_64.rpm'' = Some ''x86_64''" by code_simp
  have e2: "detect_architecture ''app-1.0.i686.rpm'' = Some ''i686''" by code_simp
  have e3: "detect_architecture ''app-1.0.noarch.rpm'' = Some ''noarch''" by code_simp
  have e4: "detect_architecture ''app-1.0.deb'' = None" by code_simp
  from order first e1 e2 e3 e4 show ?thesis by blast
qed

section \<open>Properties of the release selector\<close>






























section \<open>Properties of the cleanup\<close>

lemma doomed_Nil: "doomed cur [] = {}"
  by (simp add: doomed_def)

lemma doomed_Cons:
  "doomed cur ((n, e) # es) = (if n \<in> cur then doomed cur es else insert n (doomed cur es))"
  by (auto simp: doomed_def)

lemma filter_delete:
  "filter (\<lambda>(k, e). k \<notin> T) (AList.delete n d) = filter (\<lambda>(k, e). k \<notin> insert n T) d"
  by (induction d) (auto simp: AList.delete_eq)

lemma cleanup_loop_frame:
  "cleanup_loop cur es d removed = (d', r) \<Longrightarrow>
     \<exists>T. T \<subseteq> doomed cur es \<and> d' = filter (\<lambda>(k, e). k \<notin> T) d"
proof (induction es arbitrary: d removed)
  case Nil
  then have "d' = filter (\<lambda>(k, e). k \<notin> {}) d" by simp
  then show ?case by blast
next
  case (Cons x es)
  obtain n e where x: "x = (n, e)" by (cases x)
  show ?case
  proof (cases "n \<in> cur")
    case True
    with Cons x show ?thesis by (simp add: doomed_Cons)
  next
    case False
    show ?thesis
    proof (cases e)
      case Dir
      with Cons.prems x False have "d' = filter (\<lambda>(k, e). k \<notin> {}) d" by simp
      then show ?thesis by blast
    next
      case (File c)
      with Cons.prems x False
      have "cleanup_loop cur es (AList.delete n d) (removed @ [n]) = (d', r)" by simp
      from Cons.IH [OF this] obtain T where
        T: "T \<subseteq> doomed cur es" "d' = filter (\<lambda>(k, e). k \<notin> T) (AList.delete n d)"
        by blast
      then have "d' = filter (\<lambda>(k, e). k \<notin> insert n T) d" by (simp add: filter_delete)
      moreover from T(1) False x have "insert n T \<subseteq> doomed cur (x # es)"
        by (auto simp: doomed_Cons)
      ultimately show ?thesis by blast
    qed
  qed
qed

lemma cleanup_loop_success:
  "cleanup_loop cur es d removed = (d', Inr removed') \<Longrightarrow>
     d' = filter (\<lambda>(k, e). k \<notin> doomed cur es) d
     \<and> removed' = removed @ map fst (filter (\<lambda>(n, e). n \<notin> cur) es)"
proof (induction es arbitrary: d removed)
  case Nil
  then show ?case by (simp add: doomed_Nil)
next
  case (Cons x es)
  obtain n e where x: "x = (n, e)" by (cases x)
  show ?case
  proof (cases "n \<in> cur")
    case True
    with Cons x show ?thesis by (simp add: doomed_Cons)
  next
    case False
    show ?thesis
    proof (cases e)
      case Dir
      with Cons.prems x False show ?thesis by simp
    next
      case (File c)
      with Cons.prems x False
      have "cleanup_loop cur es (AList.delete n d) (removed @ [n]) = (d', Inr removed')" by simp
      from Cons.IH [OF this] x False show ?thesis
        by (simp add: filter_delete doomed_Cons)
    qed
  qed
qed

lemma cleanup_loop_returns:
  "(\<exists>removed'. snd (cleanup_loop cur es d removed) = Inr removed')
     \<longleftrightarrow> \<not> (\<exists>n. (n, Dir) \<in> set es \<and> n \<notin> cur)"
proof (induction es arbitrary: d removed)
  case Nil
  then show ?case by simp
next
  case (Cons x es)
  obtain n e where x: "x = (n, e)" by (cases x)
  show ?case
  proof (cases "n \<in> cur")
    case True
    with Cons x show ?thesis by auto
  next
    case False
    show ?thesis
    proof (cases e)
      case Dir
      with x False show ?thesis by auto
    next
      case (File c)
      with x False Cons.IH [of "AList.delete n d" "removed @ [n]"] show ?thesis by auto
    qed
  qed
qed

lemma doomed_glob:
  "(n, e) \<in> set d \<Longrightarrow> n \<in> doomed cur (glob_rpm d) \<longleftrightarrow> endswith ''.rpm'' n \<and> n \<notin> cur"
  by (auto simp: doomed_def glob_rpm_def)

lemma doomed_glob_rpm: "n \<in> doomed cur (glob_rpm d) \<Longrightarrow> endswith ''.rpm'' n"
  by (auto simp: doomed_def glob_rpm_def)

lemma filter_doomed_glob:
  "filter (\<lambda>(k, e). k \<notin> doomed cur (glob_rpm d)) d
     = filter (\<lambda>(k, e). \<not> (endswith ''.rpm'' k \<and> k \<notin> cur)) d"
  by (rule filter_cong) (auto simp: doomed_glob)

lemma cleanup_Some:
  "cleanup_old_packages (Some d) pkgs =
     (Some (fst (cleanup_loop (pkg_filename ` set pkgs) (glob_rpm d) d [])),
      snd (cleanup_loop (pkg_filename ` set pkgs) (glob_rpm d) d []))"
  by (simp add: cleanup_old_packages_def split: prod.splits)

lemma cleanup_old_packages_success:
  assumes "cleanup_old_packages (Some d) pkgs = (pd, Inr removed)"
  shows "pd = Some (filter (\<lambda>(n, e). \<not> (endswith ''.rpm'' n \<and> n \<notin> pkg_filename ` set pkgs)) d)"
    and "removed = map fst (filter (\<lambda>(n, e). endswith ''.rpm'' n \<and> n \<notin> pkg_filename ` set pkgs) d)"
proof -
  let ?cur = "pkg_filename ` set pkgs"
  from assms obtain d' where run: "cleanup_loop ?cur (glob_rpm d) d [] = (d', Inr removed)"
    and pd: "pd = Some d'"
    by (auto simp: cleanup_Some prod_eq_iff)
  from cleanup_loop_success [OF run] pd
  show "pd = Some (filter (\<lambda>(n, e). \<not> (endswith ''.rpm'' n \<and> n \<notin> ?cur)) d)"
    by (simp add: filter_doomed_glob)
  from cleanup_loop_success [OF run]
  have "removed = map fst (filter (\<lambda>(n, e). n \<notin> ?cur) (glob_rpm d))" by simp
  also have "\<dots> = map fst (filter (\<lambda>(n, e). endswith ''.rpm'' n \<and> n \<notin> ?cur) d)"
    unfolding glob_rpm_def filter_filter
    by (rule arg_cong [where f = "map fst"], rule filter_cong) auto
  finally show "removed = map fst (filter (\<lambda>(n, e). endswith ''.rpm'' n \<and> n \<notin> ?cur) d)" .
qed

text \<open>
  Claim C10. The cleanup never changes an entry of the packages directory whose name does
  not end in \<^verbatim>\<open>.rpm\<close>, whatever the final package set and however the loop ends. When it
  returns, the directory has lost exactly the entries whose name ends in \<^verbatim>\<open>.rpm\<close> and is
  not a file name of the final package set, the removed names are those, and each of them
  was a regular file. It returns unless such a name belongs to a directory, on which
  \<^verbatim>\<open>unlink\<close> raises. A packages directory that does not exist is left alone.
\<close>

theorem cleanup_old_packages_effect:
  "cleanup_old_packages None pkgs = (None, Inr [])
   \<and> (\<exists>d'. fst (cleanup_old_packages (Some d) pkgs) = Some d'
        \<and> filter (\<lambda>(n, e). \<not> endswith ''.rpm'' n) d' = filter (\<lambda>(n, e). \<not> endswith ''.rpm'' n) d)
   \<and> (cleanup_old_packages (Some d) pkgs = (pd, Inr removed) \<longrightarrow>
        pd = Some (filter (\<lambda>(n, e). \<not> (endswith ''.rpm'' n \<and> n \<notin> pkg_filename ` set pkgs)) d)
        \<and> removed = map fst (filter (\<lambda>(n, e). endswith ''.rpm'' n \<and> n \<notin> pkg_filename ` set pkgs) d)
        \<and> list_all (\<lambda>n. is_file d n) removed)
   \<and> ((\<exists>removed. snd (cleanup_old_packages (Some d) pkgs) = Inr removed)
        \<longleftrightarrow> \<not> (\<exists>n. (n, Dir) \<in> set d \<and> endswith ''.rpm'' n \<and> n \<notin> pkg_filename ` set pkgs))"
proof -
  let ?cur = "pkg_filename ` set pkgs"
  let ?run = "cleanup_loop ?cur (glob_rpm d) d []"
  have none: "cleanup_old_packages None pkgs = (None, Inr [])"
    by (simp add: cleanup_old_packages_def)
  have frame: "\<exists>d'. fst (cleanup_old_packages (Some d) pkgs) = Some d'
        \<and> filter (\<lambda>(n, e). \<not> endswith ''.rpm'' n) d' = filter (\<lambda>(n, e). \<not> endswith ''.rpm'' n) d"
  proof -
    obtain d' r where run: "?run = (d', r)" by (cases ?run)
    from cleanup_loop_frame [OF run] obtain T where
      T: "T \<subseteq> doomed ?cur (glob_rpm d)" "d' = filter (\<lambda>(k, e). k \<notin> T) d" by blast
    have "filter (\<lambda>(n, e). \<not> endswith ''.rpm'' n) d'
            = filter (\<lambda>(n, e). \<not> endswith ''.rpm'' n) d"
      unfolding T(2) filter_filter
      by (rule filter_cong) (use T(1) doomed_glob_rpm in auto)
    with run show ?thesis by (simp add: cleanup_Some)
  qed
  have ok: "cleanup_old_packages (Some d) pkgs = (pd, Inr removed) \<longrightarrow>
        pd = Some (filter (\<lambda>(n, e). \<not> (endswith ''.rpm'' n \<and> n \<notin> ?cur)) d)
        \<and> removed = map fst (filter (\<lambda>(n, e). endswith ''.rpm'' n \<and> n \<notin> ?cur) d)
        \<and> list_all (\<lambda>n. is_file d n) removed"
  proof
    assume a: "cleanup_old_packages (Some d) pkgs = (pd, Inr removed)"
    then obtain d' where run: "?run = (d', Inr removed)" and pd: "pd = Some d'"
      by (auto simp: cleanup_Some prod_eq_iff)
    from cleanup_loop_success [OF run]
    have d': "d' = filter (\<lambda>(k, e). \<not> (endswith ''.rpm'' k \<and> k \<notin> ?cur)) d"
      and rem: "removed = map fst (filter (\<lambda>(n, e). n \<notin> ?cur) (glob_rpm d))"
      by (simp_all add: filter_doomed_glob)
    have rem': "removed = map fst (filter (\<lambda>(n, e). endswith ''.rpm'' n \<and> n \<notin> ?cur) d)"
      unfolding rem glob_rpm_def filter_filter
      by (rule arg_cong [where f = "map fst"], rule filter_cong) auto
    have nodir: "\<not> (\<exists>n. (n, Dir) \<in> set (glob_rpm d) \<and> n \<notin> ?cur)"
      using cleanup_loop_returns [of ?cur "glob_rpm d" d "[]"] run by simp
    have "is_file d n" if "n \<in> set removed" for n
    proof -
      from that rem' obtain e where e: "(n, e) \<in> set d" "endswith ''.rpm'' n" "n \<notin> ?cur"
        by auto
      then have "map_of d n \<noteq> None"
        by (metis fst_conv image_eqI map_of_eq_None_iff)
      then obtain e' where look: "map_of d n = Some e'" by blast
      then have "(n, e') \<in> set d" by (rule map_of_SomeD)
      with e nodir have "e' \<noteq> Dir" by (auto simp: glob_rpm_def)
      with look show ?thesis by (cases e') (simp_all add: is_file_def)
    qed
    then have "list_all (\<lambda>n. is_file d n) removed" by (simp add: list_all_iff)
    with pd d' rem' show "pd = Some (filter (\<lambda>(n, e). \<not> (endswith ''.rpm'' n \<and> n \<notin> ?cur)) d)
        \<and> removed = map fst (filter (\<lambda>(n, e). endswith ''.rpm'' n \<and> n \<notin> ?cur) d)
        \<and> list_all (\<lambda>n. is_file d n) removed" by simp
  qed
  have ret: "(\<exists>removed. snd (cleanup_old_packages (Some d) pkgs) = Inr removed)
        \<longleftrightarrow> \<not> (\<exists>n. (n, Dir) \<in> set d \<and> endswith ''.rpm'' n \<and> n \<notin> ?cur)"
    using cleanup_loop_returns [of ?cur "glob_rpm d" d "[]"]
    by (auto simp: cleanup_Some glob_rpm_def)
  from none frame ok ret show ?thesis by blast
qed

text \<open>With only the package of \<^verbatim>\<open>acme/lib\<close> in the final set, the old package of
  \<^verbatim>\<open>acme/app\<close> is removed and the \<^verbatim>\<open>repodata\<close> directory stays.\<close>

theorem cleanup_old_packages_effect_witness:
  "cleanup_old_packages (Some ex_dir) [ex_package ''acme/lib'' ''lib-1.0.noarch.rpm'']
     = (Some [(''lib-1.0.noarch.rpm'', File ''lib''), (''repodata'', Dir)],
        Inr [''app-1.9.3.x86_64.rpm''])
   \<and> Some [(''lib-1.0.noarch.rpm'', File ''lib''), (''repodata'', Dir)]
       = Some (filter (\<lambda>(n, e). \<not> (endswith ''.rpm'' n
                 \<and> n \<notin> pkg_filename ` set [ex_package ''acme/lib'' ''lib-1.0.noarch.rpm''])) ex_dir)
   \<and> list_all (\<lambda>n. is_file ex_dir n) [''app-1.9.3.x86_64.rpm'']"
proof -
  have run: "cleanup_old_packages (Some ex_dir) [ex_package ''acme/lib'' ''lib-1.0.noarch.rpm'']
     = (Some [(''lib-1.0.noarch.rpm'', File ''lib''), (''repodata'', Dir)],
        Inr [''app-1.9.3.x86_64.rpm''])"
    by code_simp
  from cleanup_old_packages_effect
         [of "[ex_package ''acme/lib'' ''lib-1.0.noarch.rpm'']" ex_dir
             "Some [(''lib-1.0.noarch.rpm'', File ''lib''), (''repodata'', Dir)]"
             "[''app-1.9.3.x86_64.rpm'']"] run
  show ?thesis by blast
qed

section \<open>Properties of the run\<close>

lemma is_file_update: "is_file (AList.update k (File c) d) n \<longleftrightarrow> n = k \<or> is_file d n"
  by (simp add: is_file_def update_conv')

lemma download_file_mono:
  "download_file ev url dest tok d = (d', r) \<Longrightarrow> is_file d n \<Longrightarrow> is_file d' n"
  by (auto simp: download_file_def is_file_update split: download_result.splits if_splits)

lemma sign_rpm_package_mono:
  "is_file d n \<Longrightarrow> is_file (fst (sign_rpm_package ev p k d)) n"
  by (auto simp: sign_rpm_package_def is_file_update split: option.splits entry.splits)

lemma update_File_Dir: "(n, Dir) \<in> set (AList.update k (File c) d) \<Longrightarrow> (n, Dir) \<in> set d"
  by (induction d) (auto split: if_splits)

lemma download_file_dirs:
  "download_file ev url dest tok d = (d', r) \<Longrightarrow> (n, Dir) \<in> set d' \<Longrightarrow> (n, Dir) \<in> set d"
  by (auto simp: download_file_def split: download_result.splits if_splits dest: update_File_Dir)

lemma sign_rpm_package_dirs:
  "(n, Dir) \<in> set (fst (sign_rpm_package ev p k d)) \<Longrightarrow> (n, Dir) \<in> set d"
  by (auto simp: sign_rpm_package_def split: option.splits entry.splits dest: update_File_Dir)

lemma compute_sha256_is_file: "compute_sha256 ev d p = Inr h \<Longrightarrow> is_file d p"
  by (auto simp: compute_sha256_def is_file_def split: option.splits entry.splits)

lemma process_package_cases:
  assumes "process_package ev gh s ar pkg (d, new) = ((d', new'), r)"
  shows "(\<forall>n. is_file d n \<longrightarrow> is_file d' n)
       \<and> (\<forall>n. (n, Dir) \<in> set d' \<longrightarrow> (n, Dir) \<in> set d)
       \<and> (new' = new \<or>
            (\<exists>p2. new' = new @ [p2] \<and> pkg_filename p2 = pkg_filename pkg
               \<and> is_file d' (pkg_filename pkg) \<and> r = None))
       \<and> (r \<noteq> None \<longrightarrow> new' = new)"
proof (cases "dry_run ar")
  case True
  with assms show ?thesis by (simp add: process_package_def)
next
  case False
  let ?path = "pkg_filename pkg"
  obtain d1 failure needs where
    step1: "(if \<not> path_exists d ?path
             then (case download_file ev (pkg_url pkg) ?path (token gh) d of
                        (d', failure) \<Rightarrow> (d', failure, True))
             else (d, None, False)) = (d1, failure, needs)"
    by (metis prod_cases3)
  have mono1: "is_file d n \<Longrightarrow> is_file d1 n" for n
    using step1 by (auto split: if_splits prod.splits dest: download_file_mono)
  have dirs1: "(n, Dir) \<in> set d1 \<Longrightarrow> (n, Dir) \<in> set d" for n
    using step1 by (auto split: if_splits prod.splits dest: download_file_dirs)
  show ?thesis
  proof (cases failure)
    case (Some e)
    with assms False step1 have "d' = d1" "new' = new" "r = Some e"
      by (simp_all add: process_package_def Let_def)
    with mono1 dirs1 show ?thesis by simp
  next
    case None
    define d2 where "d2 = (if sign_packages s \<and> truthy (gpg_key ar) \<and> needs
                           then fst (sign_rpm_package ev ?path (gpg_key ar) d1) else d1)"
    have mono2: "is_file d n \<Longrightarrow> is_file d2 n" for n
      using mono1 [of n] by (simp add: d2_def sign_rpm_package_mono)
    have dirs2: "(n, Dir) \<in> set d2 \<Longrightarrow> (n, Dir) \<in> set d" for n
      using dirs1 [of n] by (auto simp: d2_def split: if_splits dest: sign_rpm_package_dirs)
    show ?thesis
    proof (cases "compute_sha256 ev d2 ?path")
      case (Inl e)
      with assms False step1 None have "d' = d2" "new' = new" "r = Some e"
        by (simp_all add: process_package_def Let_def d2_def)
      with mono2 dirs2 show ?thesis by simp
    next
      case (Inr digest)
      with assms False step1 None have "d' = d2" "r = None"
        by (simp_all add: process_package_def Let_def d2_def)
      moreover from Inr assms False step1 None
      have "\<exists>p2. new' = new @ [p2] \<and> pkg_filename p2 = pkg_filename pkg"
        by (auto simp add: process_package_def Let_def d2_def)
      ultimately show ?thesis
        using mono2 dirs2 compute_sha256_is_file [OF Inr] by auto
    qed
  qed
qed


lemma process_package_sound:
  assumes "sound F A D st" and "pkg_filename pkg \<in> A"
  shows "sound F A D (fst (process_package ev gh s ar pkg st))"
proof -
  obtain d new where st: "st = (d, new)" by (cases st)
  obtain d' new' r where run: "process_package ev gh s ar pkg (d, new) = ((d', new'), r)"
    by (metis surj_pair)
  from process_package_cases [OF run] assms st run show ?thesis
    by (auto simp: sound_def)
qed

lemma process_packages_sound:
  "sound F A D st \<Longrightarrow> \<forall>p\<in>set pkgs. pkg_filename p \<in> A \<Longrightarrow>
     sound F A D (fst (process_packages ev gh s ar pkgs st))"
proof (induction pkgs arbitrary: st)
  case Nil
  then show ?case by simp
next
  case (Cons pkg pkgs)
  obtain st' r where step: "process_package ev gh s ar pkg st = (st', r)"
    by (cases "process_package ev gh s ar pkg st")
  from Cons.prems have st': "sound F A D st'"
    using process_package_sound [of F A D st pkg ev gh s ar] step by simp
  show ?case
  proof (cases r)
    case None
    with step Cons.IH [OF st'] Cons.prems(2) show ?thesis by simp
  next
    case (Some e)
    with step st' show ?thesis by simp
  qed
qed

lemma process_releases_sound:
  "sound F A D st \<Longrightarrow> \<forall>r\<in>set rels. \<forall>p\<in>set (rel_packages r). pkg_filename p \<in> A \<Longrightarrow>
     sound F A D (fst (process_releases ev gh s ar rels st))"
proof (induction rels arbitrary: st)
  case Nil
  then show ?case by simp
next
  case (Cons rel rels)
  obtain st' r where step: "process_packages ev gh s ar (rel_packages rel) st = (st', r)"
    by (cases "process_packages ev gh s ar (rel_packages rel) st")
  from Cons.prems have st': "sound F A D st'"
    using process_packages_sound [of F A D st "rel_packages rel" ev gh s ar] step by simp
  show ?case
  proof (cases r)
    case None
    with step Cons.IH [OF st'] Cons.prems(2) show ?thesis by simp
  next
    case (Some e)
    with step st' show ?thesis by simp
  qed
qed

lemma rpm_asset_of_rpm:
  "rpm_asset_of re p archs a = Inr (Some x) \<Longrightarrow> endswith ''.rpm'' (ra_name x)"
  by (auto simp: rpm_asset_of_def Let_def split: if_splits option.splits bool.splits)

lemma find_rpm_assets_loop_rpm:
  "find_rpm_assets_loop re p archs as acc = Inr xs \<Longrightarrow>
     \<forall>x\<in>set acc. endswith ''.rpm'' (ra_name x) \<Longrightarrow> \<forall>x\<in>set xs. endswith ''.rpm'' (ra_name x)"
proof (induction as arbitrary: acc)
  case Nil
  then show ?case by simp
next
  case (Cons a as)
  show ?case
  proof (cases "rpm_asset_of re p archs a")
    case (Inl e)
    with Cons.prems show ?thesis by simp
  next
    case (Inr res)
    show ?thesis
    proof (cases res)
      case None
      with Inr Cons show ?thesis by simp
    next
      case (Some x)
      with Inr rpm_asset_of_rpm have "endswith ''.rpm'' (ra_name x)" by blast
      with Cons.prems(2) have "\<forall>y\<in>set (acc @ [x]). endswith ''.rpm'' (ra_name y)" by simp
      from Cons.IH [OF _ this] Cons.prems(1) Inr Some show ?thesis by simp
    qed
  qed
qed

lemma build_releases_rpm:
  "build_releases re p s desc bm vs acc = Inr rs \<Longrightarrow>
     \<forall>r\<in>set acc. \<forall>q\<in>set (rel_packages r). endswith ''.rpm'' (pkg_filename q) \<Longrightarrow>
     \<forall>r\<in>set rs. \<forall>q\<in>set (rel_packages r). endswith ''.rpm'' (pkg_filename q)"
proof (induction vs arbitrary: acc)
  case Nil
  then show ?case by simp
next
  case (Cons v vs)
  from Cons.prems(1) obtain rd where look: "map_of bm v = Some rd"
    by (auto split: option.splits)
  with Cons.prems(1) obtain xs where xs: "find_rpm_assets re rd p (architectures s) = Inr xs"
    by (auto simp: Let_def split: sum.splits)
  then have rpm: "\<forall>x\<in>set xs. endswith ''.rpm'' (ra_name x)"
    using find_rpm_assets_loop_rpm [of re p "architectures s" "assets rd" "[]" xs]
    by (simp add: find_rpm_assets_def)
  show ?case
  proof (cases "xs = []")
    case True
    with Cons look xs show ?thesis by (simp add: Let_def)
  next
    case False
    let ?rel = "\<lparr>rel_tag = tag_name rd, rel_version = extract_version (tag_name rd),
                  rel_major_minor = v,
                  rel_packages = map (make_package p (extract_version (tag_name rd)) desc) xs\<rparr>"
    from rpm Cons.prems(2)
    have "\<forall>r\<in>set (acc @ [?rel]). \<forall>q\<in>set (rel_packages r). endswith ''.rpm'' (pkg_filename q)"
      by (auto simp: make_package_def)
    from Cons.IH [OF _ this] Cons.prems(1) look xs False show ?thesis
      by (simp add: Let_def)
  qed
qed

lemma fetch_releases_rpm:
  assumes "fetch_releases re gh p s = Inr rs"
  shows "\<forall>r\<in>set rs. \<forall>q\<in>set (rel_packages r). endswith ''.rpm'' (pkg_filename q)"
proof -
  from assms obtain desc bm vs where "build_releases re p s desc bm vs [] = Inr rs"
    by (auto simp: fetch_releases_def Let_def split: sum.splits)
  from build_releases_rpm [OF this] show ?thesis by simp
qed

lemma process_project_sound:
  assumes "sound F {n. endswith ''.rpm'' n} D st"
  shows "sound F {n. endswith ''.rpm'' n} D (process_project ev gh s ar p st)"
proof (cases "fetch_releases (re_search_ignorecase ev) gh p s")
  case (Inl e)
  with assms show ?thesis by (simp add: process_project_def)
next
  case (Inr rels)
  from fetch_releases_rpm [OF Inr]
  have "\<forall>r\<in>set rels. \<forall>q\<in>set (rel_packages r). pkg_filename q \<in> {n. endswith ''.rpm'' n}"
    by simp
  from process_releases_sound [OF assms this] Inr assms show ?thesis
    by (simp add: process_project_def)
qed

lemma process_projects_sound:
  "sound F {n. endswith ''.rpm'' n} D st \<Longrightarrow>
     sound F {n. endswith ''.rpm'' n} D (process_projects ev gh s ar ps st)"
  by (induction ps arbitrary: st) (simp_all add: process_project_sound)

lemma map_of_filter_key:
  "map_of (filter (\<lambda>(k, e). P k) d) n = (if P n then map_of d n else None)"
  by (induction d) auto

lemma is_file_filter:
  "is_file (filter (\<lambda>(k, e). P k) d) n \<longleftrightarrow> P n \<and> is_file d n"
  by (simp add: is_file_def map_of_filter_key)

lemma is_file_in_dir: "is_file d n \<Longrightarrow> n \<in> fst ` set d"
  by (auto simp: is_file_def split: option.splits dest!: map_of_SomeD) force


lemma main_run:
  assumes "\<not> list_mode ar" and "\<not> dry_run ar"
    and "process_projects ev gh settings ar (projects_to_process all_projects ar)
           (case packages_dir w of None \<Rightarrow> [] | Some d \<Rightarrow> d, []) = (d1, new)"
    and "final = preserved_packages (load_manifest w)
                   (set (map proj_repo (projects_to_process all_projects ar))) @ new"
  shows "main ev gh settings all_projects ar w =
     (if truthy (arg_project ar) \<and> projects_to_process all_projects ar = [] then (w, Exit 1)
      else
        (case cleanup_old_packages (Some d1) final of
           (pd, Inl e) \<Rightarrow> (w\<lparr>packages_dir := pd\<rparr>, Crashed e)
         | (pd, Inr removed) \<Rightarrow>
             ((save_manifest (w\<lparr>packages_dir := pd\<rparr>) final)
                \<lparr>repo_file := Some (generate_repo_file settings
                                     (if \<not> no_sign ar then gpg_key ar else None)
                                     (sign_packages settings))\<rparr>,
              Exit 0)))"
  using assms by (simp add: main_def reconcile_def Let_def)

lemma main_invariant:
  assumes run: "main ev gh settings all_projects ar w = (w', Exit 0)"
    and mode: "\<not> list_mode ar" "\<not> dry_run ar"
    and present: "\<forall>p\<in>set (preserved_packages (load_manifest w)
                      (set (map proj_repo (projects_to_process all_projects ar)))).
                    is_file (case packages_dir w of None \<Rightarrow> [] | Some d \<Rightarrow> d) (pkg_filename p)"
  shows "\<exists>d' final. packages_dir w' = Some d' \<and> manifest w' = Some final
          \<and> (\<forall>p\<in>set final. is_file d' (pkg_filename p))
          \<and> (\<forall>(n, e)\<in>set d'. endswith ''.rpm'' n \<longrightarrow> n \<in> pkg_filename ` set final)
          \<and> ((\<forall>p\<in>set (load_manifest w). endswith ''.rpm'' (pkg_filename p)) \<longrightarrow>
                {n. n \<in> fst ` set d' \<and> endswith ''.rpm'' n} = pkg_filename ` set final)"
proof -
  let ?RPM = "{n. endswith ''.rpm'' n}"
  let ?tp = "projects_to_process all_projects ar"
  let ?d0 = "case packages_dir w of None \<Rightarrow> [] | Some d \<Rightarrow> d"
  define pres where "pres = preserved_packages (load_manifest w) (set (map proj_repo ?tp))"
  obtain d1 new where loop: "process_projects ev gh settings ar ?tp (?d0, []) = (d1, new)"
    by (cases "process_projects ev gh settings ar ?tp (?d0, [])")
  define final where "final = pres @ new"
  have final: "final = preserved_packages (load_manifest w) (set (map proj_repo ?tp)) @ new"
    by (simp add: final_def pres_def)
  obtain pd r where clean: "cleanup_old_packages (Some d1) final = (pd, r)"
    by (cases "cleanup_old_packages (Some d1) final")
  from run obtain removed where r: "r = Inr removed"
    and w': "w' = (save_manifest (w\<lparr>packages_dir := pd\<rparr>) final)
                    \<lparr>repo_file := Some (generate_repo_file settings
                                   (if \<not> no_sign ar then gpg_key ar else None)
                                   (sign_packages settings))\<rparr>"
    unfolding main_run [OF mode loop final] clean
    by (cases r) (auto split: if_splits)
  let ?keep = "\<lambda>n. \<not> (endswith ''.rpm'' n \<and> n \<notin> pkg_filename ` set final)"
  define d' where "d' = filter (\<lambda>(n, e). ?keep n) d1"
  from clean r cleanup_old_packages_success(1) [of d1 final pd removed]
  have pd: "pd = Some d'" by (simp add: d'_def)
  from present have "sound (pkg_filename ` set pres) ?RPM UNIV (?d0, [])"
    by (simp add: sound_def pres_def)
  from process_projects_sound [OF this, of ev gh settings ar ?tp] loop
  have inv: "sound (pkg_filename ` set pres) ?RPM UNIV (d1, new)" by simp
  then have files1: "\<forall>p\<in>set final. is_file d1 (pkg_filename p)"
    by (auto simp: sound_def final_def)
  have files: "\<forall>p\<in>set final. is_file d' (pkg_filename p)"
    using files1 by (simp add: d'_def is_file_filter)
  have listed: "\<forall>(n, e)\<in>set d'. endswith ''.rpm'' n \<longrightarrow> n \<in> pkg_filename ` set final"
    by (auto simp: d'_def)
  have eq: "{n. n \<in> fst ` set d' \<and> endswith ''.rpm'' n} = pkg_filename ` set final"
    if suffix: "\<forall>p\<in>set (load_manifest w). endswith ''.rpm'' (pkg_filename p)"
  proof -
    from suffix inv have "\<forall>p\<in>set final. endswith ''.rpm'' (pkg_filename p)"
      by (auto simp: sound_def final_def pres_def preserved_packages_def)
    with files listed show ?thesis
      by (auto dest: is_file_in_dir) 
  qed
  from w' pd have "packages_dir w' = Some d'" "manifest w' = Some final"
    by (simp_all add: save_manifest_def)
  with files listed eq show ?thesis by blast
qed

lemma main_reaches_end:
  assumes mode: "\<not> list_mode ar" "\<not> dry_run ar"
    and found: "truthy (arg_project ar) \<longrightarrow> projects_to_process all_projects ar \<noteq> []"
    and nodirs: "\<forall>(n, e)\<in>set (case packages_dir w of None \<Rightarrow> [] | Some d \<Rightarrow> d).
                   e = Dir \<longrightarrow> \<not> endswith ''.rpm'' n"
  shows "snd (main ev gh settings all_projects ar w) = Exit 0"
proof -
  let ?RPM = "{n. endswith ''.rpm'' n}"
  let ?tp = "projects_to_process all_projects ar"
  let ?d0 = "case packages_dir w of None \<Rightarrow> [] | Some d \<Rightarrow> d"
  let ?D = "{n. (n, Dir) \<in> set ?d0}"
  obtain d1 new where loop: "process_projects ev gh settings ar ?tp (?d0, []) = (d1, new)"
    by (cases "process_projects ev gh settings ar ?tp (?d0, [])")
  define final where
    "final = preserved_packages (load_manifest w) (set (map proj_repo ?tp)) @ new"
  have "sound {} ?RPM ?D (?d0, [])" by (simp add: sound_def)
  from process_projects_sound [OF this, of ev gh settings ar ?tp] loop
  have "sound {} ?RPM ?D (d1, new)" by simp
  then have "\<forall>n. (n, Dir) \<in> set d1 \<longrightarrow> (n, Dir) \<in> set ?d0" by (simp add: sound_def)
  with nodirs have "\<not> (\<exists>n. (n, Dir) \<in> set (glob_rpm d1) \<and> n \<notin> pkg_filename ` set final)"
    by (auto simp: glob_rpm_def)
  then obtain removed where
    "snd (cleanup_loop (pkg_filename ` set final) (glob_rpm d1) d1 []) = Inr removed"
    using cleanup_loop_returns [of "pkg_filename ` set final" "glob_rpm d1" d1 "[]"] by blast
  then obtain pd where "cleanup_old_packages (Some d1) final = (pd, Inr removed)"
    by (simp add: cleanup_Some)
  with found show ?thesis
    unfolding main_run [OF mode loop final_def] by auto
qed

text \<open>
  Claim C1. Take a run that is neither a listing nor a dry run, in an output directory where
  the files of the preserved records are regular files of the packages directory. If the
  run reaches its end, the manifest holds the final package set, every record of it names a
  regular file of the packages directory, and every entry of the directory whose name ends
  in \<^verbatim>\<open>.rpm\<close> is the file name of a record; when the file names of the manifest read at
  the start end in \<^verbatim>\<open>.rpm\<close> (as those of every manifest the generator writes do), the
  \<^verbatim>\<open>.rpm\<close> names of the directory are exactly the file names of the final package set.
  The run does reach its end when the requested project is configured and no directory
  inside the packages directory has a name ending in \<^verbatim>\<open>.rpm\<close>. The downloads need no
  hypothesis: a package whose download fails is not recorded.
\<close>

theorem main_manifest_matches_files:
  assumes mode: "\<not> list_mode ar" "\<not> dry_run ar"
    and present: "\<forall>p\<in>set (preserved_packages (load_manifest w)
                      (set (map proj_repo (projects_to_process all_projects ar)))).
                    is_file (case packages_dir w of None \<Rightarrow> [] | Some d \<Rightarrow> d) (pkg_filename p)"
  shows "(main ev gh settings all_projects ar w = (w', Exit 0) \<longrightarrow>
          (\<exists>d' final. packages_dir w' = Some d' \<and> manifest w' = Some final
            \<and> (\<forall>p\<in>set final. is_file d' (pkg_filename p))
            \<and> (\<forall>(n, e)\<in>set d'. endswith ''.rpm'' n \<longrightarrow> n \<in> pkg_filename ` set final)
            \<and> ((\<forall>p\<in>set (load_manifest w). endswith ''.rpm'' (pkg_filename p)) \<longrightarrow>
                  {n. n \<in> fst ` set d' \<and> endswith ''.rpm'' n} = pkg_filename ` set final)))
       \<and> ((truthy (arg_project ar) \<longrightarrow> projects_to_process all_projects ar \<noteq> [])
            \<and> (\<forall>(n, e)\<in>set (case packages_dir w of None \<Rightarrow> [] | Some d \<Rightarrow> d).
                   e = Dir \<longrightarrow> \<not> endswith ''.rpm'' n)
           \<longrightarrow> snd (main ev gh settings all_projects ar w) = Exit 0)"
  using main_invariant [OF _ mode present, of ev gh settings w']
    main_reaches_end [OF mode, of all_projects w ev gh settings]
  by blast

text \<open>The run \<open>ex_run\<close> ends normally; it keeps the package of \<^verbatim>\<open>acme/lib\<close> and
  replaces the package of \<^verbatim>\<open>acme/app\<close> by the one of the newest release.\<close>

theorem main_manifest_matches_files_witness:
  "snd ex_run = Exit 0
   \<and> map pkg_filename (load_manifest (fst ex_run))
       = [''lib-1.0.noarch.rpm'', ''app-2.0.1.x86_64.rpm'']
   \<and> (\<exists>d' final. packages_dir (fst ex_run) = Some d' \<and> manifest (fst ex_run) = Some final
         \<and> {n. n \<in> fst ` set d' \<and> endswith ''.rpm'' n} = pkg_filename ` set final)"
proof -
  let ?ps = "[ex_project ''acme/app'' 0]"
  have names: "map pkg_filename (load_manifest (fst ex_run))
       = [''lib-1.0.noarch.rpm'', ''app-2.0.1.x86_64.rpm'']" by code_simp
  have mode: "\<not> list_mode ex_args" "\<not> dry_run ex_args" by (simp_all add: ex_args_def)
  have "list_all (\<lambda>p. is_file (case packages_dir ex_world of None \<Rightarrow> [] | Some d \<Rightarrow> d)
                          (pkg_filename p))
          (preserved_packages (load_manifest ex_world)
             (set (map proj_repo (projects_to_process ?ps ex_args))))"
    by code_simp
  then have present: "\<forall>p\<in>set (preserved_packages (load_manifest ex_world)
                      (set (map proj_repo (projects_to_process ?ps ex_args)))).
        is_file (case packages_dir ex_world of None \<Rightarrow> [] | Some d \<Rightarrow> d) (pkg_filename p)"
    by (simp only: list_all_iff)
  have "list_all (\<lambda>p. endswith ''.rpm'' (pkg_filename p)) (load_manifest ex_world)"
    by code_simp
  then have suffix: "\<forall>p\<in>set (load_manifest ex_world). endswith ''.rpm'' (pkg_filename p)"
    by (simp only: list_all_iff)
  have found: "truthy (arg_project ex_args) \<longrightarrow> projects_to_process ?ps ex_args \<noteq> []"
    by (simp add: ex_args_def truthy_def)
  have "list_all (\<lambda>(n, e). e = Dir \<longrightarrow> \<not> endswith ''.rpm'' n)
          (case packages_dir ex_world of None \<Rightarrow> [] | Some d \<Rightarrow> d)"
    by code_simp
  then have nodirs: "\<forall>(n, e)\<in>set (case packages_dir ex_world of None \<Rightarrow> [] | Some d \<Rightarrow> d).
                       e = Dir \<longrightarrow> \<not> endswith ''.rpm'' n"
    by (simp only: list_all_iff)
  note inst = main_manifest_matches_files
                [OF mode present, of "ex_env []" "ex_github ex_releases5" ex_settings "fst ex_run"]
  from inst found nodirs
  have ok: "snd ex_run = Exit 0" by (simp add: ex_run_def)
  then have run: "main (ex_env []) (ex_github ex_releases5) ex_settings ?ps ex_args ex_world
                       = (fst ex_run, Exit 0)"
    by (simp add: ex_run_def prod_eq_iff)
  from inst run suffix
  have "\<exists>d' final. packages_dir (fst ex_run) = Some d' \<and> manifest (fst ex_run) = Some final
         \<and> {n. n \<in> fst ` set d' \<and> endswith ''.rpm'' n} = pkg_filename ` set final"
    by blast
  with ok names show ?thesis by blast
qed

section \<open>Failures inside a project\<close>

lemma process_packages_append:
  "process_packages ev gh s ar (xs @ ys) st =
     (case process_packages ev gh s ar xs st of
        (st', Some e) \<Rightarrow> (st', Some e)
      | (st', None) \<Rightarrow> process_packages ev gh s ar ys st')"
  by (induction xs arbitrary: st) (auto split: prod.splits option.splits)

lemma process_releases_concat:
  "process_releases ev gh s ar rels st
     = process_packages ev gh s ar (concat (map rel_packages rels)) st"
  by (induction rels arbitrary: st)
     (auto simp: process_packages_append split: prod.splits option.splits)

lemma process_package_download_fails:
  assumes "\<not> dry_run ar" and "\<not> path_exists d (pkg_filename pkg)"
    and "fetch_url ev (pkg_url pkg) (token gh) = ConnectFailed"
  shows "process_package ev gh s ar pkg (d, new) = ((d, new), Some DownloadError)"
  using assms by (simp add: process_package_def download_file_def Let_def)

lemma process_package_sign_fails:
  assumes "\<not> dry_run ar" and "\<not> path_exists d (pkg_filename pkg)"
    and "fetch_url ev (pkg_url pkg) (token gh) = Downloaded c"
    and "sign_packages s" and "truthy (gpg_key ar)"
    and "rpm_addsign ev (case gpg_key ar of None \<Rightarrow> [] | Some k \<Rightarrow> k) c = None"
  shows "\<exists>p2. process_package ev gh s ar pkg (d, new)
                = ((AList.update (pkg_filename pkg) (File c) d, new @ [p2]), None)
              \<and> pkg_filename p2 = pkg_filename pkg"
proof -
  let ?d1 = "AList.update (pkg_filename pkg) (File c) d"
  from assms(2) have nodir: "map_of d (pkg_filename pkg) \<noteq> Some Dir"
    by (simp add: path_exists_def)
  with assms(3) have dl: "download_file ev (pkg_url pkg) (pkg_filename pkg) (token gh) d = (?d1, None)"
    by (simp add: download_file_def)
  have look: "map_of ?d1 (pkg_filename pkg) = Some (File c)"
    by (simp add: update_conv')
  with assms(6) have sign: "sign_rpm_package ev (pkg_filename pkg) (gpg_key ar) ?d1 = (?d1, False)"
    by (simp add: sign_rpm_package_def)
  from look have sha: "compute_sha256 ev ?d1 (pkg_filename pkg) = Inr (sha256 ev c)"
    by (simp add: compute_sha256_def)
  from assms(1,2,4,5) dl sign sha show ?thesis
    by (simp add: process_package_def Let_def)
qed

text \<open>
  Claim C4, as the code has it. A download that cannot be made raises out of the package:
  the directory and the list of new packages are unchanged. An exception in a package ends
  the project: when the packages before it went through, the project leaves the list of new
  packages as those left it, so neither the failing package nor any later package or release
  of the project is recorded. The loop then goes on with the next project. A signing that
  fails raises nothing: the downloaded package is recorded all the same.
\<close>

theorem failure_ends_project_fetch:
  "(\<not> dry_run ar \<and> \<not> path_exists d (pkg_filename pkg)
      \<and> fetch_url ev (pkg_url pkg) (token gh) = ConnectFailed
     \<longrightarrow> process_package ev gh s ar pkg (d, new) = ((d, new), Some DownloadError))
   \<and> (fetch_releases (re_search_ignorecase ev) gh project s = Inr rels
        \<and> concat (map rel_packages rels) = pre @ pkg # post
        \<and> process_packages ev gh s ar pre st = (st1, None)
        \<and> process_package ev gh s ar pkg st1 = ((d2, new2), Some e)
     \<longrightarrow> process_project ev gh s ar project st = (d2, snd st1) \<and> new2 = snd st1)
   \<and> process_projects ev gh s ar (project # rest) st
       = process_projects ev gh s ar rest (process_project ev gh s ar project st)
   \<and> (\<not> dry_run ar \<and> \<not> path_exists d (pkg_filename pkg)
        \<and> fetch_url ev (pkg_url pkg) (token gh) = Downloaded c
        \<and> sign_packages s \<and> truthy (gpg_key ar)
        \<and> rpm_addsign ev (case gpg_key ar of None \<Rightarrow> [] | Some k \<Rightarrow> k) c = None
     \<longrightarrow> (\<exists>p2. process_package ev gh s ar pkg (d, new)
                  = ((AList.update (pkg_filename pkg) (File c) d, new @ [p2]), None)
                \<and> pkg_filename p2 = pkg_filename pkg))"
proof (intro conjI impI)
  assume "\<not> dry_run ar \<and> \<not> path_exists d (pkg_filename pkg)
      \<and> fetch_url ev (pkg_url pkg) (token gh) = ConnectFailed"
  then show "process_package ev gh s ar pkg (d, new) = ((d, new), Some DownloadError)"
    by (simp add: process_package_download_fails)
next
  assume h: "fetch_releases (re_search_ignorecase ev) gh project s = Inr rels
        \<and> concat (map rel_packages rels) = pre @ pkg # post
        \<and> process_packages ev gh s ar pre st = (st1, None)
        \<and> process_package ev gh s ar pkg st1 = ((d2, new2), Some e)"
  obtain d1 new1 where st1: "st1 = (d1, new1)" by (cases st1)
  from h st1 process_package_cases [of ev gh s ar pkg d1 new1 d2 new2 "Some e"]
  have new2: "new2 = new1" by simp
  from h have "rels \<noteq> []" by auto
  moreover from h new2 st1
  have "process_packages ev gh s ar (concat (map rel_packages rels)) st = ((d2, new1), Some e)"
    by (simp add: process_packages_append)
  ultimately have "process_project ev gh s ar project st = (d2, new1)"
    using h by (simp add: process_project_def process_releases_concat)
  with new2 st1 show "process_project ev gh s ar project st = (d2, snd st1)" "new2 = snd st1"
    by simp_all
next
  show "process_projects ev gh s ar (project # rest) st
       = process_projects ev gh s ar rest (process_project ev gh s ar project st)"
    by simp
next
  assume "\<not> dry_run ar \<and> \<not> path_exists d (pkg_filename pkg)
        \<and> fetch_url ev (pkg_url pkg) (token gh) = Downloaded c
        \<and> sign_packages s \<and> truthy (gpg_key ar)
        \<and> rpm_addsign ev (case gpg_key ar of None \<Rightarrow> [] | Some k \<Rightarrow> k) c = None"
  then show "\<exists>p2. process_package ev gh s ar pkg (d, new)
                  = ((AList.update (pkg_filename pkg) (File c) d, new @ [p2]), None)
                \<and> pkg_filename p2 = pkg_filename pkg"
    using process_package_sign_fails [of ar d pkg ev gh c s new] by simp
qed

text \<open>The same release: the failed download of the first package ends the project with
  nothing recorded; with a reachable server and a signing that fails, the package is
  recorded.\<close>

theorem failure_ends_project_fetch_witness:
  "fetch_releases (re_search_ignorecase (ex_env ex_unreachable)) (ex_github ex_two_assets)
       (ex_project ''acme/tool'' 0) ex_settings = Inr ex_rels
   \<and> map pkg_filename (concat (map rel_packages ex_rels))
       = [''tool-1.0.x86_64.rpm'', ''tool-1.0.aarch64.rpm'']
   \<and> process_project (ex_env ex_unreachable) (ex_github ex_two_assets) ex_settings ex_args
        (ex_project ''acme/tool'' 0) ([], []) = ([], [])
   \<and> (\<exists>p2. process_package (ex_env []) (ex_github ex_two_assets) ex_settings ex_args
               (hd ex_pkgs) ([], [])
             = (([(''tool-1.0.x86_64.rpm'',
                   File ''rpm from https://example.org/dl/tool-1.0.x86_64.rpm'')], [p2]), None))"
proof -
  let ?ev = "ex_env ex_unreachable"
  let ?gh = "ex_github ex_two_assets"
  let ?p = "ex_project ''acme/tool'' 0"
  have fetch: "fetch_releases (re_search_ignorecase ?ev) ?gh ?p ex_settings = Inr ex_rels"
    by code_simp
  have names: "map pkg_filename (concat (map rel_packages ex_rels))
       = [''tool-1.0.x86_64.rpm'', ''tool-1.0.aarch64.rpm'']"
    by code_simp
  have split: "concat (map rel_packages ex_rels) = [] @ hd ex_pkgs # tl ex_pkgs"
    by code_simp
  have pre: "process_packages ?ev ?gh ex_settings ex_args [] ([], []) = (([], []), None)"
    by simp
  have h1: "\<not> dry_run ex_args" by (simp add: ex_args_def)
  have h2: "\<not> path_exists [] (pkg_filename (hd ex_pkgs))" by (simp add: path_exists_def)
  have h3: "fetch_url ?ev (pkg_url (hd ex_pkgs)) (token ?gh) = ConnectFailed"
    by code_simp
  from failure_ends_project_fetch [where ar = ex_args and d = "[]" and pkg = "hd ex_pkgs" and ev = ?ev and gh = ?gh
              and s = ex_settings and new = "[]"] h1 h2 h3
  have fail: "process_package ?ev ?gh ex_settings ex_args (hd ex_pkgs) ([], [])
                = (([], []), Some DownloadError)"
    by blast
  from failure_ends_project_fetch [where ev = ?ev and gh = ?gh and project = ?p and s = ex_settings
              and rels = ex_rels and pre = "[]" and pkg = "hd ex_pkgs" and post = "tl ex_pkgs"
              and ar = ex_args and st = "([], [])" and ?st1.0 = "([], [])" and ?d2.0 = "[]"
              and ?new2.0 = "[]" and e = DownloadError]
    fetch split pre fail
  have proj: "process_project ?ev ?gh ex_settings ex_args ?p ([], []) = ([], [])"
    by simp
  have g3: "fetch_url (ex_env []) (pkg_url (hd ex_pkgs)) (token ?gh)
              = Downloaded ''rpm from https://example.org/dl/tool-1.0.x86_64.rpm''"
    by code_simp
  have g4: "sign_packages ex_settings" "truthy (gpg_key ex_args)"
    by (simp_all add: ex_settings_def ex_args_def truthy_def)
  have g5: "rpm_addsign (ex_env []) (case gpg_key ex_args of None \<Rightarrow> [] | Some k \<Rightarrow> k)
              ''rpm from https://example.org/dl/tool-1.0.x86_64.rpm'' = None"
    by (simp add: ex_env_def)
  have fn: "pkg_filename (hd ex_pkgs) = ''tool-1.0.x86_64.rpm''" by code_simp
  from failure_ends_project_fetch [where ar = ex_args and d = "[]" and pkg = "hd ex_pkgs" and ev = "ex_env []"
              and gh = ?gh and s = ex_settings and new = "[]"
              and c = "''rpm from https://example.org/dl/tool-1.0.x86_64.rpm''"]
    h1 h2 g3 g4 g5
  have "\<exists>p2. process_package (ex_env []) ?gh ex_settings ex_args (hd ex_pkgs) ([], [])
                  = ((AList.update (pkg_filename (hd ex_pkgs))
                        (File ''rpm from https://example.org/dl/tool-1.0.x86_64.rpm'') [], [] @ [p2]), None)
                \<and> pkg_filename p2 = pkg_filename (hd ex_pkgs)"
    by blast
  then have signed: "\<exists>p2. process_package (ex_env []) ?gh ex_settings ex_args (hd ex_pkgs) ([], [])
             = (([(''tool-1.0.x86_64.rpm'',
                   File ''rpm from https://example.org/dl/tool-1.0.x86_64.rpm'')], [p2]), None)"
    by (auto simp: fn)
  from fetch names proj signed show ?thesis by blast
qed

text \<open>
  Against claim C4 as stated: the release has a package for x86_64 and one for aarch64; the
  first download fails and the second would succeed, yet the run records neither package.
  When no download fails the run records both packages, although the signing of each of
  them fails.
\<close>

theorem download_failure_skips_rest_counterexample:
  "fetch_url (ex_env ex_unreachable) ''https://example.org/dl/tool-1.0.x86_64.rpm'' None
     = ConnectFailed
   \<and> fetch_url (ex_env ex_unreachable) ''https://example.org/dl/tool-1.0.aarch64.rpm'' None
     = Downloaded ''rpm from https://example.org/dl/tool-1.0.aarch64.rpm''
   \<and> map pkg_filename ex_pkgs = [''tool-1.0.x86_64.rpm'', ''tool-1.0.aarch64.rpm'']
   \<and> snd (sign_rpm_package (ex_env []) ''tool-1.0.x86_64.rpm'' (gpg_key ex_args)
             [(''tool-1.0.x86_64.rpm'', File ''rpm from https://example.org/dl/tool-1.0.x86_64.rpm'')])
       = False
   \<and> main (ex_env ex_unreachable) (ex_github ex_two_assets) ex_settings
        [ex_project ''acme/tool'' 0] ex_args ex_empty_world
       = (\<lparr>packages_dir = Some [], manifest = Some [],
           repo_file = Some (generate_repo_file ex_settings (Some ''0xKEY'') True)\<rparr>, Exit 0)
   \<and> map pkg_filename (load_manifest (fst (main (ex_env []) (ex_github ex_two_assets) ex_settings
        [ex_project ''acme/tool'' 0] ex_args ex_empty_world)))
       = [''tool-1.0.x86_64.rpm'', ''tool-1.0.aarch64.rpm'']"
  by code_simp

section \<open>Properties of the reconciliation\<close>

lemma cleanup_loop_all_current:
  "\<forall>(n, e)\<in>set es. n \<in> cur \<Longrightarrow> cleanup_loop cur es d removed = (d, Inr removed)"
  by (induction es) auto

text \<open>
  Claim C3. With no project to update and no new package, the reconciliation returns the
  existing packages as they are, removes nothing and leaves the packages directory as it
  is, whenever every entry of the directory whose name ends in \<^verbatim>\<open>.rpm\<close> is a file name of
  the manifest (in particular when the \<^verbatim>\<open>.rpm\<close> names on disk and the file names of the
  manifest are the same set), and also when there is no packages directory.
\<close>

theorem reconcile_noop_identity:
  "reconcile None existing {} [] = (existing, None, Inr [])
   \<and> ((\<forall>(n, e)\<in>set d. endswith ''.rpm'' n \<longrightarrow> n \<in> pkg_filename ` set existing) \<longrightarrow>
        reconcile (Some d) existing {} [] = (existing, Some d, Inr []))"
proof -
  have pres: "preserved_packages existing {} = existing"
    by (simp add: preserved_packages_def)
  have none: "reconcile None existing {} [] = (existing, None, Inr [])"
    by (simp add: reconcile_def pres cleanup_old_packages_def)
  have some: "reconcile (Some d) existing {} [] = (existing, Some d, Inr [])"
    if "\<forall>(n, e)\<in>set d. endswith ''.rpm'' n \<longrightarrow> n \<in> pkg_filename ` set existing"
  proof -
    from that have "\<forall>(n, e)\<in>set (glob_rpm d). n \<in> pkg_filename ` set existing"
      by (auto simp: glob_rpm_def)
    from cleanup_loop_all_current [OF this] show ?thesis
      by (simp add: reconcile_def pres cleanup_Some)
  qed
  from none some show ?thesis by blast
qed

text \<open>The directory \<open>ex_dir\<close> and the manifest \<open>ex_manifest\<close> match, and the
  reconciliation changes nothing.\<close>

theorem reconcile_noop_identity_witness:
  "{n. n \<in> fst ` set ex_dir \<and> endswith ''.rpm'' n} = pkg_filename ` set ex_manifest
   \<and> reconcile (Some ex_dir) ex_manifest {} [] = (ex_manifest, Some ex_dir, Inr [])"
proof -
  have "list_all (\<lambda>(n, e). endswith ''.rpm'' n \<longrightarrow> n \<in> pkg_filename ` set ex_manifest) ex_dir"
    by code_simp
  then have h: "\<forall>(n, e)\<in>set ex_dir. endswith ''.rpm'' n \<longrightarrow> n \<in> pkg_filename ` set ex_manifest"
    by (simp only: list_all_iff)
  have "list_all (\<lambda>p. pkg_filename p \<in> fst ` set ex_dir \<and> endswith ''.rpm'' (pkg_filename p))
          ex_manifest"
    by code_simp
  then have h2: "\<forall>p\<in>set ex_manifest. pkg_filename p \<in> fst ` set ex_dir
                   \<and> endswith ''.rpm'' (pkg_filename p)"
    by (simp only: list_all_iff)
  from h h2 have eq: "{n. n \<in> fst ` set ex_dir \<and> endswith ''.rpm'' n} = pkg_filename ` set ex_manifest"
    by auto
  from reconcile_noop_identity [of ex_manifest ex_dir] h
  have "reconcile (Some ex_dir) ex_manifest {} [] = (ex_manifest, Some ex_dir, Inr [])"
    by blast
  with eq show ?thesis by blast
qed

text \<open>
  Claim C2, as the code has it. When the manifest holds packages of two projects \<open>A\<close> and
  \<open>B\<close> and only \<open>A\<close> is updated, with no new package, the final package set is exactly the
  packages of \<open>B\<close>. When the cleanup returns, the removed files are exactly the entries of
  the packages directory whose name ends in \<^verbatim>\<open>.rpm\<close> and is not a file name of a package of
  \<open>B\<close>: the file of a package of \<open>A\<close> is removed when it is on disk under a name ending in
  \<^verbatim>\<open>.rpm\<close> that no package of \<open>B\<close> has.
\<close>

theorem reconcile_prunes_updated_project:
  "(A \<noteq> B \<and> (\<forall>p\<in>set existing. pkg_project_repo p = A \<or> pkg_project_repo p = B) \<longrightarrow>
      fst (reconcile pdir existing {A} []) = filter (\<lambda>p. pkg_project_repo p = B) existing)
   \<and> (A \<noteq> B \<and> (\<forall>p\<in>set existing. pkg_project_repo p = A \<or> pkg_project_repo p = B)
        \<and> reconcile (Some d) existing {A} [] = (final, pd, Inr removed) \<longrightarrow>
      set removed = {n \<in> fst ` set d. endswith ''.rpm'' n
                       \<and> n \<notin> pkg_filename ` {q \<in> set existing. pkg_project_repo q = B}}
      \<and> (\<forall>p\<in>set existing. pkg_project_repo p = A \<and> pkg_filename p \<in> fst ` set d
             \<and> endswith ''.rpm'' (pkg_filename p)
             \<and> pkg_filename p \<notin> pkg_filename ` {q \<in> set existing. pkg_project_repo q = B}
           \<longrightarrow> pkg_filename p \<in> set removed))"
proof -
  have final: "preserved_packages existing {A} = filter (\<lambda>p. pkg_project_repo p = B) existing"
    if "A \<noteq> B" "\<forall>p\<in>set existing. pkg_project_repo p = A \<or> pkg_project_repo p = B"
    unfolding preserved_packages_def using that by (intro filter_cong) auto
  have one: "fst (reconcile pdir existing {A} []) = filter (\<lambda>p. pkg_project_repo p = B) existing"
    if "A \<noteq> B" "\<forall>p\<in>set existing. pkg_project_repo p = A \<or> pkg_project_repo p = B"
    using final [OF that] by (simp add: reconcile_def Let_def)
  have two: "set removed = {n \<in> fst ` set d. endswith ''.rpm'' n
                       \<and> n \<notin> pkg_filename ` {q \<in> set existing. pkg_project_repo q = B}}"
    if h: "A \<noteq> B" "\<forall>p\<in>set existing. pkg_project_repo p = A \<or> pkg_project_repo p = B"
      and run: "reconcile (Some d) existing {A} [] = (final, pd, Inr removed)"
  proof -
    let ?bs = "filter (\<lambda>p. pkg_project_repo p = B) existing"
    from run have "cleanup_old_packages (Some d) (preserved_packages existing {A})
                     = (pd, Inr removed)"
      by (auto simp: reconcile_def Let_def)
    then have "cleanup_old_packages (Some d) ?bs = (pd, Inr removed)"
      by (simp only: final [OF h])
    from cleanup_old_packages_success(2) [OF this] show ?thesis
      by (auto simp: image_iff)
  qed
  from one two show ?thesis by blast
qed

text \<open>Updating \<^verbatim>\<open>acme/app\<close> in the directory \<open>ex_dir\<close> with nothing fetched keeps the
  package of \<^verbatim>\<open>acme/lib\<close> and removes the file of \<^verbatim>\<open>acme/app\<close>.\<close>

theorem reconcile_prunes_updated_project_witness:
  "reconcile (Some ex_dir) ex_manifest {''acme/app''} []
     = ([ex_package ''acme/lib'' ''lib-1.0.noarch.rpm''],
        Some [(''lib-1.0.noarch.rpm'', File ''lib''), (''repodata'', Dir)],
        Inr [''app-1.9.3.x86_64.rpm''])
   \<and> fst (reconcile (Some ex_dir) ex_manifest {''acme/app''} [])
       = filter (\<lambda>p. pkg_project_repo p = ''acme/lib'') ex_manifest
   \<and> set [''app-1.9.3.x86_64.rpm'']
       = {n \<in> fst ` set ex_dir. endswith ''.rpm'' n
            \<and> n \<notin> pkg_filename ` {q \<in> set ex_manifest. pkg_project_repo q = ''acme/lib''}}"
proof -
  have run: "reconcile (Some ex_dir) ex_manifest {''acme/app''} []
     = ([ex_package ''acme/lib'' ''lib-1.0.noarch.rpm''],
        Some [(''lib-1.0.noarch.rpm'', File ''lib''), (''repodata'', Dir)],
        Inr [''app-1.9.3.x86_64.rpm''])"
    by code_simp
  have ne: "''acme/app'' \<noteq> ''acme/lib''" by simp
  have "list_all (\<lambda>p. pkg_project_repo p = ''acme/app'' \<or> pkg_project_repo p = ''acme/lib'')
          ex_manifest"
    by code_simp
  then have owners: "\<forall>p\<in>set ex_manifest. pkg_project_repo p = ''acme/app''
                        \<or> pkg_project_repo p = ''acme/lib''"
    by (simp only: list_all_iff)
  note inst = reconcile_prunes_updated_project
               [where A = "''acme/app''" and B = "''acme/lib''" and existing = ex_manifest
                  and pdir = "Some ex_dir" and d = ex_dir
                  and final = "[ex_package ''acme/lib'' ''lib-1.0.noarch.rpm'']"
                  and pd = "Some [(''lib-1.0.noarch.rpm'', File ''lib''), (''repodata'', Dir)]"
                  and removed = "[''app-1.9.3.x86_64.rpm'']"]
  from inst ne owners
  have final: "fst (reconcile (Some ex_dir) ex_manifest {''acme/app''} [])
       = filter (\<lambda>p. pkg_project_repo p = ''acme/lib'') ex_manifest"
    by blast
  from inst ne owners run
  have removed: "set [''app-1.9.3.x86_64.rpm'']
       = {n \<in> fst ` set ex_dir. endswith ''.rpm'' n
            \<and> n \<notin> pkg_filename ` {q \<in> set ex_manifest. pkg_project_repo q = ''acme/lib''}}"
    by blast
  from run final removed show ?thesis by blast
qed

text \<open>
  Against claim C2 as stated: after a first run over the projects \<^verbatim>\<open>acme/a\<close> and \<^verbatim>\<open>acme/b\<close>,
  which publish an asset of the same name, the manifest has a record of each project for the
  one file. Updating \<^verbatim>\<open>acme/a\<close> alone with nothing fetched keeps the record of \<^verbatim>\<open>acme/b\<close>
  and removes no file, although the file of the previous package of \<^verbatim>\<open>acme/a\<close> is on disk.
\<close>

theorem reconcile_shared_filename_counterexample:
  "map (\<lambda>p. (pkg_project_repo p, pkg_filename p)) (load_manifest ex_shared_world)
     = [(''acme/a'', ''tool.x86_64.rpm''), (''acme/b'', ''tool.x86_64.rpm'')]
   \<and> packages_dir ex_shared_world
       = Some [(''tool.x86_64.rpm'', File ''rpm from https://example.org/dl/tool.x86_64.rpm'')]
   \<and> snd (snd (reconcile (packages_dir ex_shared_world) (load_manifest ex_shared_world)
                  {''acme/a''} [])) = Inr []
   \<and> map (\<lambda>p. (pkg_project_repo p, pkg_filename p))
        (fst (reconcile (packages_dir ex_shared_world) (load_manifest ex_shared_world)
                {''acme/a''} []))
       = [(''acme/b'', ''tool.x86_64.rpm'')]
   \<and> reconcile (Some [(''tool.x86_64.rpm'', File ''tool'')]) ex_shared {''acme/a''} []
       = ([ex_package ''acme/b'' ''tool.x86_64.rpm''],
          Some [(''tool.x86_64.rpm'', File ''tool'')], Inr [])"
  by code_simp

lemma main_written_manifest:
  assumes mode: "\<not> list_mode ar" "\<not> dry_run ar"
    and run: "main ev gh settings all_projects ar w = (w', Exit 0)"
  shows "manifest w' =
           Some (preserved_packages (load_manifest w)
                   (set (map proj_repo (projects_to_process all_projects ar)))
                 @ snd (process_projects ev gh settings ar (projects_to_process all_projects ar)
                          (case packages_dir w of None \<Rightarrow> [] | Some d \<Rightarrow> d, [])))"
proof -
  let ?tp = "projects_to_process all_projects ar"
  let ?d0 = "case packages_dir w of None \<Rightarrow> [] | Some d \<Rightarrow> d"
  obtain d1 new where loop: "process_projects ev gh settings ar ?tp (?d0, []) = (d1, new)"
    by (cases "process_projects ev gh settings ar ?tp (?d0, [])")
  define final where
    "final = preserved_packages (load_manifest w) (set (map proj_repo ?tp)) @ new"
  obtain pd r where clean: "cleanup_old_packages (Some d1) final = (pd, r)"
    by (cases "cleanup_old_packages (Some d1) final")
  from run have "manifest w' = Some final"
    unfolding main_run [OF mode loop final_def] clean
    by (cases r) (auto simp: save_manifest_def split: if_splits)
  with loop show ?thesis by (simp add: final_def)
qed

text \<open>
  Claim C8, as the code has it. The final package set is the preserved packages followed by
  the new packages, and nothing is taken out of it: its file names are pairwise distinct
  exactly when those of the preserved packages are, those of the new packages are, and no
  new package has the file name of a preserved one. The manifest that a run writes is this
  list, for the packages the run has recorded.
\<close>

theorem final_package_set_filenames:
  "fst (reconcile pdir existing updated new) = preserved_packages existing updated @ new
   \<and> (distinct (map pkg_filename (fst (reconcile pdir existing updated new)))
        \<longleftrightarrow> distinct (map pkg_filename (preserved_packages existing updated))
            \<and> distinct (map pkg_filename new)
            \<and> pkg_filename ` set (preserved_packages existing updated)
                \<inter> pkg_filename ` set new = {})
   \<and> (\<not> list_mode ar \<and> \<not> dry_run ar
        \<and> main ev gh settings all_projects ar w = (w', Exit 0) \<longrightarrow>
      (let st = process_projects ev gh settings ar (projects_to_process all_projects ar)
                  (case packages_dir w of None \<Rightarrow> [] | Some d \<Rightarrow> d, [])
       in manifest w' =
            Some (fst (reconcile (Some (fst st)) (load_manifest w)
                         (set (map proj_repo (projects_to_process all_projects ar))) (snd st)))))"
proof -
  have list: "fst (reconcile p e u n) = preserved_packages e u @ n" for p e u n
    by (simp add: reconcile_def Let_def)
  have uniq: "distinct (map pkg_filename (fst (reconcile pdir existing updated new)))
        \<longleftrightarrow> distinct (map pkg_filename (preserved_packages existing updated))
            \<and> distinct (map pkg_filename new)
            \<and> pkg_filename ` set (preserved_packages existing updated)
                \<inter> pkg_filename ` set new = {}"
    by (simp add: list)
  have written: "let st = process_projects ev gh settings ar (projects_to_process all_projects ar)
                  (case packages_dir w of None \<Rightarrow> [] | Some d \<Rightarrow> d, [])
       in manifest w' =
            Some (fst (reconcile (Some (fst st)) (load_manifest w)
                         (set (map proj_repo (projects_to_process all_projects ar))) (snd st)))"
    if "\<not> list_mode ar \<and> \<not> dry_run ar \<and> main ev gh settings all_projects ar w = (w', Exit 0)"
    using that main_written_manifest [of ar ev gh settings all_projects w w']
    by (simp add: list Let_def)
  from list uniq written show ?thesis by blast
qed

text \<open>The manifest that the run \<open>ex_run\<close> writes is such a list, and its file names are
  distinct.\<close>

theorem final_package_set_filenames_witness:
  "main (ex_env []) (ex_github ex_releases5) ex_settings [ex_project ''acme/app'' 0] ex_args
     ex_world = (fst ex_run, Exit 0)
   \<and> (let st = process_projects (ex_env []) (ex_github ex_releases5) ex_settings ex_args
                  (projects_to_process [ex_project ''acme/app'' 0] ex_args)
                  (case packages_dir ex_world of None \<Rightarrow> [] | Some d \<Rightarrow> d, [])
       in manifest (fst ex_run) =
            Some (fst (reconcile (Some (fst st)) (load_manifest ex_world)
                         (set (map proj_repo (projects_to_process [ex_project ''acme/app'' 0] ex_args)))
                         (snd st))))
   \<and> distinct (map pkg_filename (load_manifest (fst ex_run)))"
proof -
  have "snd ex_run = Exit 0" by code_simp
  then have run: "main (ex_env []) (ex_github ex_releases5) ex_settings
                    [ex_project ''acme/app'' 0] ex_args ex_world = (fst ex_run, Exit 0)"
    by (simp add: ex_run_def prod_eq_iff)
  have mode: "\<not> list_mode ex_args" "\<not> dry_run ex_args" by (simp_all add: ex_args_def)
  from final_package_set_filenames
         [where ar = ex_args and ev = "ex_env []" and gh = "ex_github ex_releases5"
            and settings = ex_settings and all_projects = "[ex_project ''acme/app'' 0]"
            and w = ex_world and w' = "fst ex_run"]
    mode run
  have written: "let st = process_projects (ex_env []) (ex_github ex_releases5) ex_settings ex_args
                  (projects_to_process [ex_project ''acme/app'' 0] ex_args)
                  (case packages_dir ex_world of None \<Rightarrow> [] | Some d \<Rightarrow> d, [])
       in manifest (fst ex_run) =
            Some (fst (reconcile (Some (fst st)) (load_manifest ex_world)
                         (set (map proj_repo (projects_to_process [ex_project ''acme/app'' 0] ex_args)))
                         (snd st)))"
    by blast
  have uniq: "distinct (map pkg_filename (load_manifest (fst ex_run)))" by code_simp
  from run written uniq show ?thesis by blast
qed

text \<open>
  Against claim C8 as stated: a project keeps two release lines, and the release of each
  line has an asset of the same name. The run ends normally and writes a manifest with two
  records of that file name, one for each version.
\<close>

theorem duplicate_filenames_counterexample:
  "snd (main (ex_env []) (ex_github ex_same_name) ex_settings [ex_project ''acme/tool'' 1]
          ex_args ex_empty_world) = Exit 0
   \<and> map pkg_filename (load_manifest (fst (main (ex_env []) (ex_github ex_same_name) ex_settings
          [ex_project ''acme/tool'' 1] ex_args ex_empty_world)))
       = [''tool.x86_64.rpm'', ''tool.x86_64.rpm'']
   \<and> map pkg_version (load_manifest (fst (main (ex_env []) (ex_github ex_same_name) ex_settings
          [ex_project ''acme/tool'' 1] ex_args ex_empty_world)))
       = [''1.1.0'', ''1.0.0'']
   \<and> \<not> distinct (map pkg_filename (load_manifest (fst (main (ex_env []) (ex_github ex_same_name)
          ex_settings [ex_project ''acme/tool'' 1] ex_args ex_empty_world))))"
  by code_simp

section \<open>Properties of the repository descriptor\<close>







end
